theory Spec2Isabelle
  imports Main "HOL-Library.Word" "HOL-Library.Multiset"
begin

section \<open>The ledger facade of the Theta ledger (ledger/ledger.go)\<close>

text \<open>
  The theory embeds \<^verbatim>\<open>ledger/ledger.go\<close>: the operations \<^verbatim>\<open>ScreenTx\<close>,
  \<^verbatim>\<open>ProposeBlockTxs\<close>, \<^verbatim>\<open>ApplyBlockTxs\<close>, \<^verbatim>\<open>ResetState\<close> and
  \<^verbatim>\<open>FinalizeState\<close> of the type \<^verbatim>\<open>Ledger\<close>, with their private helpers.
  The ledger is sequential in the model: every public operation of the source runs under
  the lock \<^verbatim>\<open>mu\<close>, which is left out. A Go pointer to an object owned by the ledger
  (the ledger state, one of its views) is the current value of that object: a function that
  mutates it takes the value and returns the new one.

  The packages the ledger calls (\<^verbatim>\<open>types\<close>, \<^verbatim>\<open>ledger/state\<close>,
  \<^verbatim>\<open>ledger/execution\<close>, \<^verbatim>\<open>mempool\<close>, \<^verbatim>\<open>crypto\<close>, \<^verbatim>\<open>result\<close>,
  \<^verbatim>\<open>core\<close>) are not among the sources. Their data is modelled from the fields the ledger
  reads and writes and from the specification; their functions are parameters, collected in
  the record \<open>Env\<close>.
\<close>

subsection \<open>Bytes, results, transactions\<close>

type_synonym uint64 = "64 word"
type_synonym Bytes = "8 word list"
type_synonym Hash = Bytes
type_synonym Address = Bytes
type_synonym PubKey = Bytes
type_synonym PrivKey = Bytes
type_synonym Signature = Bytes
type_synonym Coins = int
type_synonym error = string

text \<open>
  \<^verbatim>\<open>result.Result\<close>, from its uses in the ledger: a code and a message, \<^verbatim>\<open>result.OK\<close>,
  \<^verbatim>\<open>result.Error(format, args)\<close>, \<^verbatim>\<open>WithErrorCode\<close> and \<^verbatim>\<open>IsError\<close>. The message keeps
  the format string; the formatted arguments are left out.
\<close>

datatype ErrorCode = CodeOK | CodeGenericError | CodeUnauthorizedTx | CodeOther nat

record Result =
  Code :: ErrorCode
  Message :: string

definition OK :: Result where
  "OK = \<lparr>Code = CodeOK, Message = ''''\<rparr>"

definition Error :: "string \<Rightarrow> Result" where
  "Error msg = \<lparr>Code = CodeGenericError, Message = msg\<rparr>"

definition WithErrorCode :: "ErrorCode \<Rightarrow> Result \<Rightarrow> Result" where
  "WithErrorCode c r = r\<lparr>Code := c\<rparr>"

definition IsError :: "Result \<Rightarrow> bool" where
  "IsError r = (Code r \<noteq> CodeOK)"

text \<open>
  \<^verbatim>\<open>types.TxInput\<close> and \<^verbatim>\<open>types.TxOutput\<close>: the ledger sets \<^verbatim>\<open>Address\<close> and \<^verbatim>\<open>PubKey\<close>
  of an input and \<^verbatim>\<open>Address\<close> and \<^verbatim>\<open>Coins\<close> of an output; the coin amount and the
  sequence number of an input (specification, section 3) keep Go's zero value there.
\<close>

record TxInput =
  in_Address :: Address
  in_PubKey :: "PubKey option"
  in_Coins :: Coins
  in_Sequence :: uint64

record TxOutput =
  out_Address :: Address
  out_Coins :: Coins

text \<open>
  \<^verbatim>\<open>types.Tx\<close> is an interface in the source; the ledger builds \<^verbatim>\<open>CoinbaseTx\<close> and
  \<^verbatim>\<open>SlashTx\<close> and switches on the kind. The third kind stands for the transactions of the
  clients (inputs, outputs, fee, gas). Each kind carries its signatures, keyed by the
  address of the signer (specification, section 3), here as an association list.
\<close>

type_synonym Signatures = "(Address \<times> Signature) list"

datatype Tx =
    CoinbaseTx (cb_Proposer: TxInput) (cb_Outputs: "TxOutput list") (cb_BlockHeight: uint64)
      (cb_Signatures: Signatures)
  | SlashTx (sl_Proposer: TxInput) (sl_SlashedAddress: Address) (sl_ReserveSequence: uint64)
      (sl_SlashProof: Bytes) (sl_Signatures: Signatures)
  | SendTx (sd_Inputs: "TxInput list") (sd_Outputs: "TxOutput list") (sd_Fee: Coins)
      (sd_Gas: uint64) (sd_Signatures: Signatures)

text \<open>
  Modelled from the spec: \<^verbatim>\<open>SetSignature\<close> of \<^verbatim>\<open>types.Tx\<close> is missing; each transaction
  carries a signature map keyed by signer address, and the call stores the signature under
  the address.
\<close>

definition set_sig :: "Address \<Rightarrow> Signature \<Rightarrow> Signatures \<Rightarrow> Signatures" where
  "set_sig addr sig sigs = (addr, sig) # filter (\<lambda>p. fst p \<noteq> addr) sigs"

fun SetSignature :: "Address \<Rightarrow> Signature \<Rightarrow> Tx \<Rightarrow> Tx" where
  "SetSignature addr sig (CoinbaseTx p outs h sigs) = CoinbaseTx p outs h (set_sig addr sig sigs)"
| "SetSignature addr sig (SlashTx p a s prf sigs) = SlashTx p a s prf (set_sig addr sig sigs)"
| "SetSignature addr sig (SendTx ins outs fee gas sigs) =
     SendTx ins outs fee gas (set_sig addr sig sigs)"

subsection \<open>Views, ledger state, collaborators\<close>

record SlashIntent =
  si_Address :: Address
  si_ReserveSequence :: uint64
  si_Proof :: Bytes

text \<open>
  Modelled from the spec: \<^verbatim>\<open>state.StoreView\<close> is missing; a view is an authenticated map
  from addresses to accounts plus a slash-intent queue and a block height. The map is the
  parameter \<open>'c\<close>; \<^verbatim>\<open>Hash()\<close> is a parameter of \<open>Env\<close>.
\<close>

record 'c StoreView =
  height :: uint64
  contents :: 'c
  slashIntents :: "SlashIntent list"

definition Height :: "'c StoreView \<Rightarrow> uint64" where
  "Height view = height view"

definition GetSlashIntents :: "'c StoreView \<Rightarrow> SlashIntent list" where
  "GetSlashIntents view = slashIntents view"

definition ClearSlashIntents :: "'c StoreView \<Rightarrow> 'c StoreView" where
  "ClearSlashIntents view = view\<lparr>slashIntents := []\<rparr>"

text \<open>
  Modelled from the spec: \<^verbatim>\<open>state.LedgerState\<close> is missing; it is built from a chain id
  and a database (\<^verbatim>\<open>NewLedgerState(chainID, db)\<close>) and owns the screened, checked,
  delivered and finalized views.
\<close>

record ('c, 'd) LedgerState =
  chainID :: string
  db :: 'd
  screened :: "'c StoreView"
  checked :: "'c StoreView"
  delivered :: "'c StoreView"
  finalized :: "'c StoreView"

definition GetChainID :: "('c, 'd) LedgerState \<Rightarrow> string" where
  "GetChainID s = chainID s"

record Validator =
  v_Address :: Address
  v_PublicKey :: PubKey

text \<open>
  \<^verbatim>\<open>core.ConsensusEngine\<close> and \<^verbatim>\<open>core.ValidatorManager\<close>, as far as the ledger reads them:
  the epoch, the private key, the proposer and the validators of an epoch.
\<close>

record ConsensusEngine =
  GetEpoch :: uint64
  PrivateKey :: PrivKey

record ValidatorManager =
  GetProposerForEpoch :: "uint64 \<Rightarrow> Validator"
  GetValidatorSetForEpoch :: "uint64 \<Rightarrow> Validator list"

text \<open>
  Modelled from the spec: \<^verbatim>\<open>mempool.Mempool\<close> is missing; its entries are raw
  transactions, \<^verbatim>\<open>Reap(n)\<close> returns up to \<open>n\<close> of them in selection order without
  removing them, and \<^verbatim>\<open>Update(txs)\<close> removes exactly the listed entries.
\<close>

type_synonym Mempool = "Bytes list"

definition Reap :: "nat \<Rightarrow> Mempool \<Rightarrow> Bytes list" where
  "Reap n mp = take n mp"

definition Update :: "Bytes list \<Rightarrow> Mempool \<Rightarrow> Mempool" where
  "Update txs mp = filter (\<lambda>raw. raw \<notin> set txs) mp"

text \<open>
  The functions of the missing packages. The executor was built on the ledger's own state
  (\<^verbatim>\<open>NewLedger\<close>), so its three operations take and return the ledger state; the info
  they return is dropped by the ledger and left out. \<open>MapRange\<close> is the order in which Go's
  \<^verbatim>\<open>range\<close> enumerates a map, which the language leaves open.
\<close>

record ('c, 'd) Env =
  TxFromBytes :: "Bytes \<Rightarrow> error + Tx"
  TxToBytes :: "Tx \<Rightarrow> error + Bytes"
  SignBytes :: "string \<Rightarrow> Tx \<Rightarrow> Bytes"
  Sign :: "PrivKey \<Rightarrow> Bytes \<Rightarrow> error + Signature"
  ViewHash :: "'c StoreView \<Rightarrow> Hash"
  StateHeight :: "('c, 'd) LedgerState \<Rightarrow> uint64"
  StateResetState :: "uint64 \<Rightarrow> Hash \<Rightarrow> ('c, 'd) LedgerState \<Rightarrow> Result \<times> ('c, 'd) LedgerState"
  StateFinalize :: "uint64 \<Rightarrow> Hash \<Rightarrow> ('c, 'd) LedgerState \<Rightarrow> Result \<times> ('c, 'd) LedgerState"
  StateCommit :: "('c, 'd) LedgerState \<Rightarrow> ('c, 'd) LedgerState"
  ExecScreenTx :: "Tx \<Rightarrow> ('c, 'd) LedgerState \<Rightarrow> Result \<times> ('c, 'd) LedgerState"
  ExecCheckTx :: "Tx \<Rightarrow> ('c, 'd) LedgerState \<Rightarrow> Result \<times> ('c, 'd) LedgerState"
  ExecExecuteTx :: "Tx \<Rightarrow> ('c, 'd) LedgerState \<Rightarrow> Result \<times> ('c, 'd) LedgerState"
  CalculateReward :: "'c StoreView \<Rightarrow> Address list \<Rightarrow> (Bytes \<rightharpoonup> Coins)"
  MapRange :: "(Bytes \<rightharpoonup> Coins) \<Rightarrow> (Bytes \<times> Coins) list"
  MaxNumRegularTxsPerBlock :: nat
  AddressLength :: nat

subsection \<open>The ledger\<close>

record ('c, 'd) Ledger =
  consensus :: ConsensusEngine
  valMgr :: ValidatorManager
  mempool :: Mempool
  state :: "('c, 'd) LedgerState"

text \<open>\<^verbatim>\<open>shouldSkipCheckTx\<close>: the kinds only validators may initiate.\<close>

fun shouldSkipCheckTx :: "Tx \<Rightarrow> bool" where
  "shouldSkipCheckTx (CoinbaseTx p outs h sigs) = True"
| "shouldSkipCheckTx (SlashTx p a s prf sigs) = True"
| "shouldSkipCheckTx (SendTx ins outs fee gas sigs) = False"

text \<open>\<^verbatim>\<open>ScreenTx\<close>: the result and the ledger after the call.\<close>

definition ScreenTx ::
  "('c, 'd) Env \<Rightarrow> Bytes \<Rightarrow> ('c, 'd) Ledger \<Rightarrow> Result \<times> ('c, 'd) Ledger" where
  "ScreenTx env rawTx ledger =
     (case TxFromBytes env rawTx of
        Inl err \<Rightarrow> (Error ''Error decoding tx: %v'', ledger)
      | Inr tx \<Rightarrow>
          if shouldSkipCheckTx tx
          then (WithErrorCode CodeUnauthorizedTx (Error ''Unauthorized transaction, should skip''),
                ledger)
          else (case ExecScreenTx env tx (state ledger) of
                  (res, s) \<Rightarrow> (res, ledger\<lparr>state := s\<rparr>)))"

text \<open>\<^verbatim>\<open>signTransaction\<close>.\<close>

definition signTransaction ::
  "('c, 'd) Env \<Rightarrow> ('c, 'd) Ledger \<Rightarrow> Tx \<Rightarrow> error + Signature" where
  "signTransaction env ledger tx =
     (let chainID = GetChainID (state ledger);
          signBytes = SignBytes env chainID tx
      in case Sign env (PrivateKey (consensus ledger)) signBytes of
           Inl err \<Rightarrow> Inl err
         | Inr signature \<Rightarrow> Inr signature)"

text \<open>
  \<^verbatim>\<open>copy(accountAddress[:], accountAddressStr)\<close> into a zeroed array of
  \<^verbatim>\<open>AddressLength\<close> bytes: the first bytes of the key, the rest stays zero.
\<close>

definition copyAddress :: "nat \<Rightarrow> Bytes \<Rightarrow> Address" where
  "copyAddress n str = take n str @ replicate (n - length str) 0"

text \<open>The loop over the reward map in \<^verbatim>\<open>addCoinbaseTx\<close>, in the order of \<^verbatim>\<open>range\<close>.\<close>

fun rewardOutputs :: "nat \<Rightarrow> (Bytes \<times> Coins) list \<Rightarrow> TxOutput list \<Rightarrow> TxOutput list" where
  "rewardOutputs n [] coinbaseTxOutputs = coinbaseTxOutputs"
| "rewardOutputs n ((accountAddressStr, accountReward) # rest) coinbaseTxOutputs =
     rewardOutputs n rest
       (coinbaseTxOutputs @
        [\<lparr>out_Address = copyAddress n accountAddressStr, out_Coins = accountReward\<rparr>])"

definition proposerTxIn :: "Validator \<Rightarrow> TxInput" where
  "proposerTxIn proposer =
     \<lparr>in_Address = v_Address proposer, in_PubKey = Some (v_PublicKey proposer),
      in_Coins = 0, in_Sequence = 0\<rparr>"

text \<open>The coinbase transaction of \<^verbatim>\<open>addCoinbaseTx\<close> before it is signed.\<close>

definition newCoinbaseTx ::
  "('c, 'd) Env \<Rightarrow> ('c, 'd) Ledger \<Rightarrow> 'c StoreView \<Rightarrow> Validator \<Rightarrow> Validator list \<Rightarrow> Tx" where
  "newCoinbaseTx env ledger view proposer validators =
     (let validatorAddresses = map v_Address validators;
          accountRewardMap = CalculateReward env view validatorAddresses;
          coinbaseTxOutputs =
            rewardOutputs (AddressLength env) (MapRange env accountRewardMap) []
      in CoinbaseTx (proposerTxIn proposer) coinbaseTxOutputs (StateHeight env (state ledger)) [])"

text \<open>\<^verbatim>\<open>addCoinbaseTx\<close>: the list \<^verbatim>\<open>*rawTxs\<close> after the call.\<close>

definition addCoinbaseTx ::
  "('c, 'd) Env \<Rightarrow> ('c, 'd) Ledger \<Rightarrow> 'c StoreView \<Rightarrow> Validator \<Rightarrow> Validator list \<Rightarrow>
   Bytes list \<Rightarrow> Bytes list" where
  "addCoinbaseTx env ledger view proposer validators rawTxs =
     (let proposerAddress = v_Address proposer;
          coinbaseTx = newCoinbaseTx env ledger view proposer validators
      in case signTransaction env ledger coinbaseTx of
           Inl err \<Rightarrow> rawTxs
         | Inr signature \<Rightarrow>
             (case TxToBytes env (SetSignature proposerAddress signature coinbaseTx) of
                Inl err \<Rightarrow> rawTxs
              | Inr coinbaseTxBytes \<Rightarrow> rawTxs @ [coinbaseTxBytes]))"

text \<open>The slash transaction of one intent in \<^verbatim>\<open>addSlashTxs\<close> before it is signed.\<close>

definition newSlashTx :: "Validator \<Rightarrow> SlashIntent \<Rightarrow> Tx" where
  "newSlashTx proposer slashIntent =
     SlashTx (proposerTxIn proposer) (si_Address slashIntent) (si_ReserveSequence slashIntent)
       (si_Proof slashIntent) []"

text \<open>The loop of \<^verbatim>\<open>addSlashTxs\<close>; \<^verbatim>\<open>continue\<close> goes on with the list as it is.\<close>

fun slashLoop ::
  "('c, 'd) Env \<Rightarrow> ('c, 'd) Ledger \<Rightarrow> Validator \<Rightarrow> SlashIntent list \<Rightarrow> Bytes list \<Rightarrow>
   Bytes list" where
  "slashLoop env ledger proposer [] rawTxs = rawTxs"
| "slashLoop env ledger proposer (slashIntent # rest) rawTxs =
     (let slashTx = newSlashTx proposer slashIntent
      in case signTransaction env ledger slashTx of
           Inl err \<Rightarrow> slashLoop env ledger proposer rest rawTxs
         | Inr signature \<Rightarrow>
             (case TxToBytes env (SetSignature (v_Address proposer) signature slashTx) of
                Inl err \<Rightarrow> slashLoop env ledger proposer rest rawTxs
              | Inr slashTxBytes \<Rightarrow>
                  slashLoop env ledger proposer rest (rawTxs @ [slashTxBytes])))"

text \<open>\<^verbatim>\<open>addSlashTxs\<close>: the list \<^verbatim>\<open>*rawTxs\<close> and the view after the call.\<close>

definition addSlashTxs ::
  "('c, 'd) Env \<Rightarrow> ('c, 'd) Ledger \<Rightarrow> 'c StoreView \<Rightarrow> Validator \<Rightarrow> Validator list \<Rightarrow>
   Bytes list \<Rightarrow> Bytes list \<times> 'c StoreView" where
  "addSlashTxs env ledger view proposer validators rawTxs =
     (let slashIntents = GetSlashIntents view
      in (slashLoop env ledger proposer slashIntents rawTxs, ClearSlashIntents view))"

text \<open>
  \<^verbatim>\<open>addSpecialTransactions\<close>, called with the checked view of the ledger state: the list
  \<^verbatim>\<open>*rawTxs\<close> and the ledger after the call.
\<close>

definition addSpecialTransactions ::
  "('c, 'd) Env \<Rightarrow> ('c, 'd) Ledger \<Rightarrow> Bytes list \<Rightarrow> Bytes list \<times> ('c, 'd) Ledger" where
  "addSpecialTransactions env ledger rawTxs =
     (let view = checked (state ledger);
          epoch = GetEpoch (consensus ledger);
          proposer = GetProposerForEpoch (valMgr ledger) epoch;
          validators = GetValidatorSetForEpoch (valMgr ledger) epoch;
          rawTxs1 = addCoinbaseTx env ledger view proposer validators rawTxs
      in case addSlashTxs env ledger view proposer validators rawTxs1 of
           (rawTxs2, view') \<Rightarrow> (rawTxs2, ledger\<lparr>state := (state ledger)\<lparr>checked := view'\<rparr>\<rparr>))"

text \<open>
  The second loop of \<^verbatim>\<open>ProposeBlockTxs\<close>, over the candidates: the batch built so far and
  the ledger state go through the loop.
\<close>

fun checkLoop ::
  "('c, 'd) Env \<Rightarrow> Bytes list \<Rightarrow> ('c, 'd) LedgerState \<Rightarrow> Bytes list \<Rightarrow>
   Bytes list \<times> ('c, 'd) LedgerState" where
  "checkLoop env [] s blockRawTxs = (blockRawTxs, s)"
| "checkLoop env (rawTxCandidate # rest) s blockRawTxs =
     (case TxFromBytes env rawTxCandidate of
        Inl err \<Rightarrow> checkLoop env rest s blockRawTxs
      | Inr tx \<Rightarrow>
          (case ExecCheckTx env tx s of
             (res, s') \<Rightarrow>
               if IsError res then checkLoop env rest s' blockRawTxs
               else checkLoop env rest s' (blockRawTxs @ [rawTxCandidate])))"

text \<open>\<^verbatim>\<open>ProposeBlockTxs\<close>: the state root, the batch, the result and the ledger after the call.\<close>

definition ProposeBlockTxs ::
  "('c, 'd) Env \<Rightarrow> ('c, 'd) Ledger \<Rightarrow> Hash \<times> Bytes list \<times> Result \<times> ('c, 'd) Ledger" where
  "ProposeBlockTxs env ledger =
     (case addSpecialTransactions env ledger [] of
        (rawTxCandidates0, ledger1) \<Rightarrow>
          (let regularRawTxs = Reap (MaxNumRegularTxsPerBlock env) (mempool ledger1);
               rawTxCandidates = rawTxCandidates0 @ regularRawTxs
           in case checkLoop env rawTxCandidates (state ledger1) [] of
                (blockRawTxs, s) \<Rightarrow>
                  (let stateRootHash = ViewHash env (checked s)
                   in (stateRootHash, blockRawTxs, OK,
                       ledger1\<lparr>state := s, mempool := Update regularRawTxs (mempool ledger1)\<rparr>))))"

text \<open>\<^verbatim>\<open>resetState\<close>.\<close>

definition resetState ::
  "('c, 'd) Env \<Rightarrow> uint64 \<Rightarrow> Hash \<Rightarrow> ('c, 'd) Ledger \<Rightarrow> Result \<times> ('c, 'd) Ledger" where
  "resetState env h rootHash ledger =
     (case StateResetState env h rootHash (state ledger) of
        (res, s) \<Rightarrow>
          (if IsError res then Error ''Failed to set state root: %v'' else OK,
           ledger\<lparr>state := s\<rparr>))"

text \<open>
  The loop of \<^verbatim>\<open>ApplyBlockTxs\<close>: \<open>Some\<close> of the result returned from inside the loop, or
  \<open>None\<close> when the loop runs to its end, and the ledger at that point.
\<close>

fun applyLoop ::
  "('c, 'd) Env \<Rightarrow> uint64 \<Rightarrow> Hash \<Rightarrow> Bytes list \<Rightarrow> ('c, 'd) Ledger \<Rightarrow>
   Result option \<times> ('c, 'd) Ledger" where
  "applyLoop env currHeight currStateRoot [] ledger = (None, ledger)"
| "applyLoop env currHeight currStateRoot (rawTx # rest) ledger =
     (case TxFromBytes env rawTx of
        Inl err \<Rightarrow>
          (Some (Error ''Failed to parse transaction: %v''),
           snd (resetState env currHeight currStateRoot ledger))
      | Inr tx \<Rightarrow>
          (case ExecExecuteTx env tx (state ledger) of
             (res, s) \<Rightarrow>
               if IsError res
               then (Some res, snd (resetState env currHeight currStateRoot (ledger\<lparr>state := s\<rparr>)))
               else applyLoop env currHeight currStateRoot rest (ledger\<lparr>state := s\<rparr>)))"

text \<open>\<^verbatim>\<open>ApplyBlockTxs\<close>: the result and the ledger after the call.\<close>

definition ApplyBlockTxs ::
  "('c, 'd) Env \<Rightarrow> Bytes list \<Rightarrow> Hash \<Rightarrow> ('c, 'd) Ledger \<Rightarrow> Result \<times> ('c, 'd) Ledger" where
  "ApplyBlockTxs env blockRawTxs expectedStateRoot ledger =
     (let view = delivered (state ledger);
          currHeight = Height view;
          currStateRoot = ViewHash env view
      in case applyLoop env currHeight currStateRoot blockRawTxs ledger of
           (Some res, ledger') \<Rightarrow> (res, ledger')
         | (None, ledger1) \<Rightarrow>
             (let newStateRoot = ViewHash env (delivered (state ledger1))
              in if newStateRoot \<noteq> expectedStateRoot
                 then (Error ''State root mismatch! root: %v, exptected: %v'',
                       snd (resetState env currHeight currStateRoot ledger1))
                 else (OK, ledger1\<lparr>state := StateCommit env (state ledger1),
                                   mempool := Update blockRawTxs (mempool ledger1)\<rparr>)))"

text \<open>\<^verbatim>\<open>ResetState\<close> and \<^verbatim>\<open>FinalizeState\<close>.\<close>

definition ResetState ::
  "('c, 'd) Env \<Rightarrow> uint64 \<Rightarrow> Hash \<Rightarrow> ('c, 'd) Ledger \<Rightarrow> Result \<times> ('c, 'd) Ledger" where
  "ResetState env h rootHash ledger = resetState env h rootHash ledger"

definition FinalizeState ::
  "('c, 'd) Env \<Rightarrow> uint64 \<Rightarrow> Hash \<Rightarrow> ('c, 'd) Ledger \<Rightarrow> Result \<times> ('c, 'd) Ledger" where
  "FinalizeState env h rootHash ledger =
     (case StateFinalize env h rootHash (state ledger) of
        (res, s) \<Rightarrow>
          (if IsError res then Error ''Failed to finalize state root: %v'' else OK,
           ledger\<lparr>state := s\<rparr>))"

subsection \<open>The specification's words, for comparison with the loops\<close>




text \<open>
  Every transaction of a batch decodes and executes: the ledger state after the last one,
  \<open>None\<close> when one of them fails.
\<close>

fun executeAll ::
  "('c, 'd) Env \<Rightarrow> Bytes list \<Rightarrow> ('c, 'd) LedgerState \<Rightarrow> ('c, 'd) LedgerState option" where
  "executeAll env [] s = Some s"
| "executeAll env (rawTx # rest) s =
     (case TxFromBytes env rawTx of
        Inl err \<Rightarrow> None
      | Inr tx \<Rightarrow>
          if IsError (fst (ExecExecuteTx env tx s)) then None
          else executeAll env rest (snd (ExecExecuteTx env tx s)))"

text \<open>
  A candidate passes when it decodes and \<^verbatim>\<open>CheckTx\<close> accepts it; whether it passes or
  not, the ledger state after it is the one \<^verbatim>\<open>CheckTx\<close> leaves (the state as it was when
  the candidate does not decode).
\<close>

definition passesCheck :: "('c, 'd) Env \<Rightarrow> Bytes \<Rightarrow> ('c, 'd) LedgerState \<Rightarrow> bool" where
  "passesCheck env raw s =
     (case TxFromBytes env raw of
        Inl err \<Rightarrow> False
      | Inr tx \<Rightarrow> \<not> IsError (fst (ExecCheckTx env tx s)))"

definition afterCheck ::
  "('c, 'd) Env \<Rightarrow> ('c, 'd) LedgerState \<Rightarrow> Bytes \<Rightarrow> ('c, 'd) LedgerState" where
  "afterCheck env s raw =
     (case TxFromBytes env raw of
        Inl err \<Rightarrow> s
      | Inr tx \<Rightarrow> snd (ExecCheckTx env tx s))"

text \<open>The ledger state in front of each candidate, and after the last one.\<close>

fun checkStates ::
  "('c, 'd) Env \<Rightarrow> Bytes list \<Rightarrow> ('c, 'd) LedgerState \<Rightarrow> ('c, 'd) LedgerState list" where
  "checkStates env [] s = []"
| "checkStates env (raw # rest) s = s # checkStates env rest (afterCheck env s raw)"

definition finalState ::
  "('c, 'd) Env \<Rightarrow> Bytes list \<Rightarrow> ('c, 'd) LedgerState \<Rightarrow> ('c, 'd) LedgerState" where
  "finalState env cands s = foldl (afterCheck env) s cands"

text \<open>The candidates that are not dropped, in the order of the candidates.\<close>

definition survivors ::
  "('c, 'd) Env \<Rightarrow> Bytes list \<Rightarrow> ('c, 'd) LedgerState \<Rightarrow> Bytes list" where
  "survivors env cands s =
     map fst (filter (\<lambda>p. passesCheck env (fst p) (snd p)) (zip cands (checkStates env cands s)))"

text \<open>
  A special transaction as a candidate: signed by the consensus engine's key, the signature
  stored under the proposer's address, encoded; \<open>None\<close> when signing or encoding fails.
\<close>

definition signedBytes ::
  "('c, 'd) Env \<Rightarrow> ('c, 'd) Ledger \<Rightarrow> Address \<Rightarrow> Tx \<Rightarrow> Bytes option" where
  "signedBytes env ledger addr tx =
     (case signTransaction env ledger tx of
        Inl err \<Rightarrow> None
      | Inr signature \<Rightarrow>
          (case TxToBytes env (SetSignature addr signature tx) of
             Inl err \<Rightarrow> None
           | Inr bytes \<Rightarrow> Some bytes))"

definition currentProposer :: "('c, 'd) Ledger \<Rightarrow> Validator" where
  "currentProposer ledger = GetProposerForEpoch (valMgr ledger) (GetEpoch (consensus ledger))"

definition currentValidators :: "('c, 'd) Ledger \<Rightarrow> Validator list" where
  "currentValidators ledger = GetValidatorSetForEpoch (valMgr ledger) (GetEpoch (consensus ledger))"

definition coinbaseCandidate :: "('c, 'd) Env \<Rightarrow> ('c, 'd) Ledger \<Rightarrow> Bytes option" where
  "coinbaseCandidate env ledger =
     signedBytes env ledger (v_Address (currentProposer ledger))
       (newCoinbaseTx env ledger (checked (state ledger)) (currentProposer ledger)
          (currentValidators ledger))"

definition slashCandidate ::
  "('c, 'd) Env \<Rightarrow> ('c, 'd) Ledger \<Rightarrow> SlashIntent \<Rightarrow> Bytes option" where
  "slashCandidate env ledger slashIntent =
     signedBytes env ledger (v_Address (currentProposer ledger))
       (newSlashTx (currentProposer ledger) slashIntent)"

text \<open>The candidates in the order of the specification: coinbase, slashes, regular.\<close>

definition candidates :: "('c, 'd) Env \<Rightarrow> ('c, 'd) Ledger \<Rightarrow> Bytes list" where
  "candidates env ledger =
     List.map_filter id [coinbaseCandidate env ledger] @
     List.map_filter (slashCandidate env ledger) (GetSlashIntents (checked (state ledger))) @
     Reap (MaxNumRegularTxsPerBlock env) (mempool ledger)"

text \<open>The ledger state the candidates are checked from: the slash intents are cleared.\<close>

definition clearedState :: "('c, 'd) Ledger \<Rightarrow> ('c, 'd) LedgerState" where
  "clearedState ledger = (state ledger)\<lparr>checked := ClearSlashIntents (checked (state ledger))\<rparr>"

text \<open>
  An executor whose \<^verbatim>\<open>CheckTx\<close> records no slash intent and removes none: the slash
  intents of the checked view are after a check what they were before it.
\<close>

definition check_keeps_intents :: "('c, 'd) Env \<Rightarrow> bool" where
  "check_keeps_intents env =
     (\<forall>tx s. GetSlashIntents (checked (snd (ExecCheckTx env tx s))) =
             GetSlashIntents (checked s))"

text \<open>
  The encoding round trip of transactions (specification, section 3):
  \<^verbatim>\<open>FromBytes(ToBytes(t)) = t\<close>.
\<close>

definition codec_roundtrip :: "('c, 'd) Env \<Rightarrow> bool" where
  "codec_roundtrip env = (\<forall>tx b. TxToBytes env tx = Inr b \<longrightarrow> TxFromBytes env b = Inr tx)"

fun isCoinbaseTx :: "Tx \<Rightarrow> bool" where
  "isCoinbaseTx (CoinbaseTx p outs h sigs) = True"
| "isCoinbaseTx (SlashTx p a s prf sigs) = False"
| "isCoinbaseTx (SendTx ins outs fee gas sigs) = False"

definition decodesToCoinbase :: "('c, 'd) Env \<Rightarrow> Bytes \<Rightarrow> bool" where
  "decodesToCoinbase env raw =
     (case TxFromBytes env raw of Inl err \<Rightarrow> False | Inr tx \<Rightarrow> isCoinbaseTx tx)"

text \<open>
  An enumeration of a Go map by \<^verbatim>\<open>range\<close>: every key once, with its value, in any order.
\<close>

definition enumerates :: "('k \<times> 'v) list \<Rightarrow> ('k \<rightharpoonup> 'v) \<Rightarrow> bool" where
  "enumerates xs m = (distinct (map fst xs) \<and> map_of xs = m)"

text \<open>The reward map a call of \<^verbatim>\<open>ProposeBlockTxs\<close> iterates over.\<close>

definition rewardMap :: "('c, 'd) Env \<Rightarrow> ('c, 'd) Ledger \<Rightarrow> (Bytes \<rightharpoonup> Coins)" where
  "rewardMap env ledger =
     CalculateReward env (checked (state ledger)) (map v_Address (currentValidators ledger))"

text \<open>
  The contract of the executor's \<^verbatim>\<open>ScreenTx\<close> (specification, section 4.2), as far as the
  database goes: screening a transaction leaves the database of the ledger state as it is.
\<close>

definition screen_keeps_db :: "('c, 'd) Env \<Rightarrow> bool" where
  "screen_keeps_db env = (\<forall>tx s. db (snd (ExecScreenTx env tx s)) = db s)"

subsection \<open>Vote sets\<close>

text \<open>
  Modelled from the spec: \<^verbatim>\<open>core.Vote\<close> and \<^verbatim>\<open>core.VoteSet\<close> are missing (only their
  tests are among the sources). A vote is a block header, a voter id and an epoch. A vote
  set is keyed by voter id, last write wins by epoch: a second vote of a voter with a
  strictly greater epoch replaces the earlier one, otherwise it is dropped. The set is the
  list of its entries, in the order in which the voters first voted.
\<close>

record 'b Vote =
  Block :: 'b
  ID :: string
  Epoch :: uint64

type_synonym 'b VoteSet = "'b Vote list"

definition NewVoteSet :: "'b VoteSet" where
  "NewVoteSet = []"

fun AddVote :: "'b Vote \<Rightarrow> 'b VoteSet \<Rightarrow> 'b VoteSet" where
  "AddVote vote [] = [vote]"
| "AddVote vote (entry # rest) =
     (if ID entry = ID vote
      then (if Epoch entry < Epoch vote then vote # rest else entry # rest)
      else entry # AddVote vote rest)"

definition Votes :: "'b VoteSet \<Rightarrow> 'b Vote list" where
  "Votes s = s"

definition AddVotes :: "'b Vote list \<Rightarrow> 'b VoteSet \<Rightarrow> 'b VoteSet" where
  "AddVotes votes s = foldl (\<lambda>s vote. AddVote vote s) s votes"

subsection \<open>A small instance of the collaborators\<close>

text \<open>
  Two validators, one slash intent in the checked view, four entries in the mempool (the
  second and the fourth do not decode, the third fails its check). The contents of a view
  are the bytes written to it, and its hash is its contents. The codec knows five
  transactions. \<open>ex_env_rev\<close> enumerates the reward map in the other order;
  \<open>ex_env_nosign\<close> has a signer that fails; \<open>ex_env_reject\<close> has an executor whose
  \<^verbatim>\<open>CheckTx\<close> rejects every transaction; \<open>ex_env_noreset\<close> has a ledger state whose reset
  fails and leaves the state as it is; \<open>ex_env_noslash\<close> has a codec that fails to encode
  the slash transaction.
\<close>

definition ex_valA :: Validator where
  "ex_valA = \<lparr>v_Address = [1, 1], v_PublicKey = [10]\<rparr>"

definition ex_valB :: Validator where
  "ex_valB = \<lparr>v_Address = [2, 2], v_PublicKey = [20]\<rparr>"

definition ex_consensus :: ConsensusEngine where
  "ex_consensus = \<lparr>GetEpoch = 7, PrivateKey = [9]\<rparr>"

definition ex_valMgr :: ValidatorManager where
  "ex_valMgr = \<lparr>GetProposerForEpoch = (\<lambda>epoch. ex_valA),
                GetValidatorSetForEpoch = (\<lambda>epoch. [ex_valA, ex_valB])\<rparr>"

definition ex_intent :: SlashIntent where
  "ex_intent = \<lparr>si_Address = [2, 2], si_ReserveSequence = 4, si_Proof = [8]\<rparr>"

definition ex_cbAB :: Tx where
  "ex_cbAB = CoinbaseTx (proposerTxIn ex_valA)
     [\<lparr>out_Address = [1, 1], out_Coins = 10\<rparr>, \<lparr>out_Address = [2, 2], out_Coins = 10\<rparr>] 5
     [([1, 1], [9, 0])]"

definition ex_cbBA :: Tx where
  "ex_cbBA = CoinbaseTx (proposerTxIn ex_valA)
     [\<lparr>out_Address = [2, 2], out_Coins = 10\<rparr>, \<lparr>out_Address = [1, 1], out_Coins = 10\<rparr>] 5
     [([1, 1], [9, 0])]"

definition ex_slash :: Tx where
  "ex_slash = SlashTx (proposerTxIn ex_valA) [2, 2] 4 [8] [([1, 1], [9, 0])]"

definition ex_sendGood :: Tx where
  "ex_sendGood = SendTx [] [] 0 1 []"

definition ex_sendBad :: Tx where
  "ex_sendBad = SendTx [] [] 0 0 []"

definition ex_TxToBytes :: "Tx \<Rightarrow> error + Bytes" where
  "ex_TxToBytes tx =
     (if tx = ex_cbAB then Inr [1]
      else if tx = ex_cbBA then Inr [5]
      else if tx = ex_slash then Inr [2]
      else if tx = ex_sendGood then Inr [3]
      else if tx = ex_sendBad then Inr [4]
      else Inl ''unsupported'')"

definition ex_TxFromBytes :: "Bytes \<Rightarrow> error + Tx" where
  "ex_TxFromBytes b =
     (if b = [1] then Inr ex_cbAB
      else if b = [5] then Inr ex_cbBA
      else if b = [2] then Inr ex_slash
      else if b = [3] then Inr ex_sendGood
      else if b = [4] then Inr ex_sendBad
      else Inl ''malformed'')"

definition ex_touch :: "8 word \<Rightarrow> Bytes StoreView \<Rightarrow> Bytes StoreView" where
  "ex_touch b view = view\<lparr>contents := contents view @ [b]\<rparr>"

definition ex_run :: "Tx \<Rightarrow> Bytes StoreView \<Rightarrow> Result \<times> Bytes StoreView" where
  "ex_run tx view =
     (case tx of
        CoinbaseTx p outs h sigs \<Rightarrow> (OK, ex_touch 1 view)
      | SlashTx p a s prf sigs \<Rightarrow> (OK, ex_touch 2 view)
      | SendTx ins outs fee gas sigs \<Rightarrow>
          if gas = 0 then (Error ''out of gas'', ex_touch 4 view) else (OK, ex_touch 3 view))"

definition ex_view :: "uint64 \<Rightarrow> Bytes \<Rightarrow> Bytes StoreView" where
  "ex_view h r = \<lparr>height = h, contents = r, slashIntents = []\<rparr>"

definition ex_range :: "Bytes list \<Rightarrow> (Bytes \<rightharpoonup> Coins) \<Rightarrow> (Bytes \<times> Coins) list" where
  "ex_range keys m = List.map_filter (\<lambda>k. map_option (Pair k) (m k)) keys"

definition ex_env :: "(Bytes, Bytes list) Env" where
  "ex_env =
     \<lparr>TxFromBytes = ex_TxFromBytes,
      TxToBytes = ex_TxToBytes,
      SignBytes = (\<lambda>chainID tx. [0]),
      Sign = (\<lambda>key bytes. Inr (key @ bytes)),
      ViewHash = contents,
      StateHeight = (\<lambda>s. height (delivered s)),
      StateResetState = (\<lambda>h r s. (OK, s\<lparr>delivered := ex_view h r\<rparr>)),
      StateFinalize = (\<lambda>h r s. (OK, s\<lparr>finalized := ex_view h r\<rparr>)),
      StateCommit = (\<lambda>s. s\<lparr>db := contents (delivered s) # db s\<rparr>),
      ExecScreenTx = (\<lambda>tx s. (fst (ex_run tx (screened s)), s)),
      ExecCheckTx = (\<lambda>tx s. (fst (ex_run tx (checked s)), s\<lparr>checked := snd (ex_run tx (checked s))\<rparr>)),
      ExecExecuteTx =
        (\<lambda>tx s. (fst (ex_run tx (delivered s)), s\<lparr>delivered := snd (ex_run tx (delivered s))\<rparr>)),
      CalculateReward = (\<lambda>view addrs. map_of (map (\<lambda>a. (a, 10)) addrs)),
      MapRange = ex_range [[1, 1], [2, 2]],
      MaxNumRegularTxsPerBlock = 3,
      AddressLength = 2\<rparr>"

definition ex_env_rev :: "(Bytes, Bytes list) Env" where
  "ex_env_rev = ex_env\<lparr>MapRange := ex_range [[2, 2], [1, 1]]\<rparr>"

definition ex_env_nosign :: "(Bytes, Bytes list) Env" where
  "ex_env_nosign = ex_env\<lparr>Sign := (\<lambda>key bytes. Inl ''no key'')\<rparr>"

definition ex_env_reject :: "(Bytes, Bytes list) Env" where
  "ex_env_reject = ex_env\<lparr>ExecCheckTx := (\<lambda>tx s. (Error ''rejected'', s))\<rparr>"

definition ex_env_noreset :: "(Bytes, Bytes list) Env" where
  "ex_env_noreset = ex_env\<lparr>StateResetState := (\<lambda>h r s. (Error ''unknown root'', s))\<rparr>"

definition ex_env_noslash :: "(Bytes, Bytes list) Env" where
  "ex_env_noslash =
     ex_env\<lparr>TxToBytes := (\<lambda>tx. if tx = ex_slash then Inl ''too large'' else ex_TxToBytes tx)\<rparr>"

definition ex_state :: "(Bytes, Bytes list) LedgerState" where
  "ex_state =
     \<lparr>chainID = ''testchain'', db = [],
      screened = ex_view 5 [], checked = (ex_view 5 [])\<lparr>slashIntents := [ex_intent]\<rparr>,
      delivered = ex_view 5 [], finalized = ex_view 5 []\<rparr>"

definition ex_ledger :: "(Bytes, Bytes list) Ledger" where
  "ex_ledger =
     \<lparr>consensus = ex_consensus, valMgr = ex_valMgr,
      mempool = [[3], [255], [4], [6]], state = ex_state\<rparr>"

definition ex_ledger_idle :: "(Bytes, Bytes list) Ledger" where
  "ex_ledger_idle = ex_ledger\<lparr>mempool := []\<rparr>"

section \<open>Properties\<close>

subsection \<open>Results, mempool, evaluation of the small instance\<close>

lemmas ex_defs = ex_env_def ex_env_rev_def ex_env_nosign_def ex_env_reject_def
  ex_env_noreset_def ex_env_noslash_def ex_ledger_def
  ex_ledger_idle_def
  ex_state_def ex_view_def ex_range_def ex_run_def ex_touch_def ex_TxFromBytes_def
  ex_TxToBytes_def ex_sendBad_def ex_sendGood_def ex_slash_def ex_cbAB_def ex_cbBA_def
  ex_intent_def ex_valMgr_def ex_consensus_def ex_valA_def ex_valB_def

lemmas ledger_defs = ProposeBlockTxs_def ApplyBlockTxs_def ScreenTx_def resetState_def
  addSpecialTransactions_def addCoinbaseTx_def addSlashTxs_def newCoinbaseTx_def newSlashTx_def
  signTransaction_def proposerTxIn_def copyAddress_def GetChainID_def GetSlashIntents_def
  ClearSlashIntents_def Height_def Reap_def Update_def set_sig_def OK_def Error_def
  WithErrorCode_def IsError_def Let_def List.map_filter_def

lemma IsError_OK: "\<not> IsError OK"
  by (simp add: IsError_def OK_def)


lemma IsError_neq_OK: "IsError res \<Longrightarrow> res \<noteq> OK"
  using IsError_OK by auto

lemma set_Update: "set (Update txs mp) = set mp - set txs"
  by (auto simp: Update_def)

subsection \<open>ScreenTx\<close>

text \<open>
  C5. When the raw transaction decodes to a coinbase or a slash transaction, whatever its
  signatures are, \<^verbatim>\<open>ScreenTx\<close> returns the error with code \<^verbatim>\<open>CodeUnauthorizedTx\<close>
  without calling the executor, and the ledger is as it was. For every input: the mempool
  is as it was, and the database of the ledger state is as it was, provided the
  executor's \<^verbatim>\<open>ScreenTx\<close> leaves it alone; \<^verbatim>\<open>ScreenTx\<close> does not commit.
\<close>

theorem ScreenTx_unauthorized:
  "(TxFromBytes env rawTx = Inr (CoinbaseTx p outs h sigs) \<or>
    TxFromBytes env rawTx = Inr (SlashTx p' a s slashProof sigs') \<longrightarrow>
      ScreenTx env rawTx ledger =
        (WithErrorCode CodeUnauthorizedTx (Error ''Unauthorized transaction, should skip''),
         ledger) \<and>
      IsError (fst (ScreenTx env rawTx ledger)) \<and>
      Code (fst (ScreenTx env rawTx ledger)) = CodeUnauthorizedTx) \<and>
   (screen_keeps_db env \<longrightarrow>
      db (state (snd (ScreenTx env rawTx ledger))) = db (state ledger)) \<and>
   mempool (snd (ScreenTx env rawTx ledger)) = mempool ledger"
  by (auto simp: ScreenTx_def screen_keeps_db_def WithErrorCode_def Error_def IsError_def
      split: sum.splits prod.splits)
     (metis snd_conv)

text \<open>
  On the small instance \<open>[1]\<close> decodes to a coinbase transaction and \<open>[3]\<close> to a
  transaction of a client.
\<close>

theorem ScreenTx_unauthorized_witness:
  "TxFromBytes ex_env [1] = Inr ex_cbAB \<and>
   ex_cbAB = CoinbaseTx (proposerTxIn ex_valA)
     [\<lparr>out_Address = [1, 1], out_Coins = 10\<rparr>, \<lparr>out_Address = [2, 2], out_Coins = 10\<rparr>] 5
     [([1, 1], [9, 0])] \<and>
   screen_keeps_db ex_env \<and>
   Code (fst (ScreenTx ex_env [1] ex_ledger)) = CodeUnauthorizedTx \<and>
   snd (ScreenTx ex_env [1] ex_ledger) = ex_ledger \<and>
   TxFromBytes ex_env [2] = Inr ex_slash \<and>
   Code (fst (ScreenTx ex_env [2] ex_ledger)) = CodeUnauthorizedTx \<and>
   db (state (snd (ScreenTx ex_env [3] ex_ledger))) = db (state ex_ledger)"
proof -
  have d: "TxFromBytes ex_env [1] = Inr (CoinbaseTx (proposerTxIn ex_valA)
     [\<lparr>out_Address = [1, 1], out_Coins = 10\<rparr>, \<lparr>out_Address = [2, 2], out_Coins = 10\<rparr>] 5
     [([1, 1], [9, 0])])"
    by (simp add: ex_env_def ex_TxFromBytes_def ex_cbAB_def)
  have d2: "TxFromBytes ex_env [2] = Inr (SlashTx (proposerTxIn ex_valA) [2, 2] 4 [8]
     [([1, 1], [9, 0])])" "TxFromBytes ex_env [2] = Inr ex_slash"
    by (simp_all add: ex_env_def ex_TxFromBytes_def ex_slash_def)
  have k: "screen_keeps_db ex_env"
    by (simp add: screen_keeps_db_def ex_env_def)
  have c: "ex_cbAB = CoinbaseTx (proposerTxIn ex_valA)
     [\<lparr>out_Address = [1, 1], out_Coins = 10\<rparr>, \<lparr>out_Address = [2, 2], out_Coins = 10\<rparr>] 5
     [([1, 1], [9, 0])]"
    by (simp add: ex_cbAB_def)
  from ScreenTx_unauthorized [where env = ex_env and rawTx = "[1]" and ledger = ex_ledger
      and p = "proposerTxIn ex_valA" and h = 5 and sigs = "[([1, 1], [9, 0])]"
      and outs = "[\<lparr>out_Address = [1, 1], out_Coins = 10\<rparr>, \<lparr>out_Address = [2, 2], out_Coins = 10\<rparr>]"]
    ScreenTx_unauthorized [where env = ex_env and rawTx = "[2]" and ledger = ex_ledger
      and p' = "proposerTxIn ex_valA" and a = "[2, 2]" and s = 4 and slashProof = "[8]"
      and sigs' = "[([1, 1], [9, 0])]"]
    ScreenTx_unauthorized [where env = ex_env and rawTx = "[3]" and ledger = ex_ledger] d d2 k c
  show ?thesis
    by (simp add: WithErrorCode_def Error_def)
qed

subsection \<open>ProposeBlockTxs: candidates, batch, mempool\<close>

lemma signedBytes_None_iff:
  "signedBytes env ledger addr tx = None \<longleftrightarrow>
     (\<exists>err. signTransaction env ledger tx = Inl err) \<or>
     (\<exists>signature err. signTransaction env ledger tx = Inr signature \<and>
         TxToBytes env (SetSignature addr signature tx) = Inl err)"
  by (auto simp: signedBytes_def split: sum.splits)

lemma signedBytes_Some_iff:
  "signedBytes env ledger addr tx = Some bytes \<longleftrightarrow>
     (\<exists>signature. signTransaction env ledger tx = Inr signature \<and>
         TxToBytes env (SetSignature addr signature tx) = Inr bytes)"
  by (auto simp: signedBytes_def split: sum.splits)

text \<open>
  Each special transaction adds its bytes to the list when it is signed and encoded, and
  nothing otherwise.
\<close>

lemma addCoinbaseTx_signedBytes:
  "addCoinbaseTx env ledger view proposer validators rawTxs =
     rawTxs @ List.map_filter id
       [signedBytes env ledger (v_Address proposer)
          (newCoinbaseTx env ledger view proposer validators)]"
  by (simp add: addCoinbaseTx_def signedBytes_def List.map_filter_def Let_def split: sum.splits)

lemma slashLoop_signedBytes:
  "slashLoop env ledger proposer intents rawTxs =
     rawTxs @ List.map_filter
       (\<lambda>slashIntent. signedBytes env ledger (v_Address proposer) (newSlashTx proposer slashIntent))
       intents"
proof (induction intents arbitrary: rawTxs)
  case Nil
  then show ?case by (simp add: List.map_filter_def)
next
  case (Cons slashIntent rest)
  then show ?case
    by (simp add: signedBytes_def List.map_filter_def Let_def split: sum.splits)
qed

lemma addSpecialTransactions_candidates:
  "addSpecialTransactions env ledger rawTxs =
     (rawTxs @ List.map_filter id [coinbaseCandidate env ledger] @
        List.map_filter (slashCandidate env ledger) (GetSlashIntents (checked (state ledger))),
      ledger\<lparr>state := clearedState ledger\<rparr>)"
proof -
  have "(\<lambda>slashIntent. signedBytes env ledger (v_Address (currentProposer ledger))
           (newSlashTx (currentProposer ledger) slashIntent)) = slashCandidate env ledger"
    by (rule ext) (simp add: slashCandidate_def)
  then show ?thesis
    by (simp add: addSpecialTransactions_def addSlashTxs_def Let_def addCoinbaseTx_signedBytes
        slashLoop_signedBytes coinbaseCandidate_def currentProposer_def currentValidators_def
        clearedState_def)
qed

text \<open>The loop over the candidates keeps the candidates that pass, in their order.\<close>

lemma survivors_Nil: "survivors env [] s = []"
  by (simp add: survivors_def)

lemma survivors_Cons:
  "survivors env (raw # rest) s =
     (if passesCheck env raw s then [raw] else []) @ survivors env rest (afterCheck env s raw)"
  by (simp add: survivors_def)

lemma finalState_Nil: "finalState env [] s = s"
  by (simp add: finalState_def)

lemma finalState_Cons:
  "finalState env (raw # rest) s = finalState env rest (afterCheck env s raw)"
  by (simp add: finalState_def)

lemma checkLoop_survivors:
  "checkLoop env cands s blockRawTxs =
     (blockRawTxs @ survivors env cands s, finalState env cands s)"
proof (induction cands arbitrary: s blockRawTxs)
  case Nil
  then show ?case by (simp add: survivors_Nil finalState_Nil)
next
  case (Cons raw rest)
  show ?case
  proof (cases "TxFromBytes env raw")
    case (Inl err)
    then show ?thesis
      by (simp add: Cons.IH survivors_Cons finalState_Cons passesCheck_def afterCheck_def)
  next
    case (Inr tx)
    then show ?thesis
      by (cases "ExecCheckTx env tx s")
         (simp add: Cons.IH survivors_Cons finalState_Cons passesCheck_def afterCheck_def)
  qed
qed

lemma ProposeBlockTxs_candidates:
  "ProposeBlockTxs env ledger =
     (ViewHash env (checked (finalState env (candidates env ledger) (clearedState ledger))),
      survivors env (candidates env ledger) (clearedState ledger),
      OK,
      ledger\<lparr>state := finalState env (candidates env ledger) (clearedState ledger),
             mempool := Update (Reap (MaxNumRegularTxsPerBlock env) (mempool ledger))
                          (mempool ledger)\<rparr>)"
  by (simp add: ProposeBlockTxs_def addSpecialTransactions_candidates checkLoop_survivors
      candidates_def Let_def)

text \<open>
  C4. After \<^verbatim>\<open>ProposeBlockTxs\<close> the mempool is the mempool of before, updated with the
  list that was reaped: no reaped entry is left in it, whether it went into the batch or was
  dropped, and every entry that was not reaped is still there. The update does not depend
  on the outcome of the checks.
\<close>

theorem ProposeBlockTxs_drains_mempool:
  "mempool (snd (snd (snd (ProposeBlockTxs env ledger)))) =
     Update (Reap (MaxNumRegularTxsPerBlock env) (mempool ledger)) (mempool ledger) \<and>
   (\<forall>raw \<in> set (Reap (MaxNumRegularTxsPerBlock env) (mempool ledger)).
      raw \<notin> set (mempool (snd (snd (snd (ProposeBlockTxs env ledger)))))) \<and>
   (\<forall>raw \<in> set (mempool ledger).
      raw \<notin> set (Reap (MaxNumRegularTxsPerBlock env) (mempool ledger)) \<longrightarrow>
      raw \<in> set (mempool (snd (snd (snd (ProposeBlockTxs env ledger))))))"
  by (simp add: ProposeBlockTxs_candidates set_Update)

text \<open>
  On the small instance three entries are reaped; \<open>[255]\<close> does not decode and \<open>[4]\<close>
  fails its check, and both are gone from the mempool.
\<close>

theorem ProposeBlockTxs_drains_mempool_witness:
  "Reap (MaxNumRegularTxsPerBlock ex_env) (mempool ex_ledger) = [[3], [255], [4]] \<and>
   fst (snd (ProposeBlockTxs ex_env ex_ledger)) = [[1], [2], [3]] \<and>
   mempool (snd (snd (snd (ProposeBlockTxs ex_env ex_ledger)))) = [[6]] \<and>
   [255] \<notin> set (mempool (snd (snd (snd (ProposeBlockTxs ex_env ex_ledger))))) \<and>
   [4] \<notin> set (mempool (snd (snd (snd (ProposeBlockTxs ex_env ex_ledger))))) \<and>
   [6] \<in> set (mempool (snd (snd (snd (ProposeBlockTxs ex_env ex_ledger)))))"
proof -
  have r: "Reap (MaxNumRegularTxsPerBlock ex_env) (mempool ex_ledger) = [[3], [255], [4]]"
    by (simp add: ex_defs ledger_defs)
  have m: "mempool ex_ledger = [[3], [255], [4], [6]]"
    by (simp add: ex_defs)
  have b: "fst (snd (ProposeBlockTxs ex_env ex_ledger)) = [[1], [2], [3]]"
    by (simp add: ex_defs ledger_defs)
  have u: "Update [[3], [255], [4]] [[3], [255], [4], [6]] = [[6]]"
    by (simp add: Update_def)
  from ProposeBlockTxs_drains_mempool [of ex_env ex_ledger] r m b u show ?thesis
    by simp
qed

lemma map_filter_map_Some: "List.map_filter f xs = ys" if "map f xs = map Some ys"
  using that by (induction xs arbitrary: ys) (auto simp: List.map_filter_def)

text \<open>
  C2, as amended. The batch of \<^verbatim>\<open>ProposeBlockTxs\<close> is made of the candidates that decode
  and pass \<^verbatim>\<open>CheckTx\<close>, in the order of the candidates; the candidates are, in this
  order, the coinbase transaction when it was signed and encoded, the slash transaction of
  each slash intent of the checked view that was signed and encoded, and the transactions
  reaped from the mempool. The slash intents are cleared before the candidates are checked.
  The root returned is the hash of the checked view after \<^verbatim>\<open>CheckTx\<close> has run on every
  candidate that decodes. When the coinbase transaction and the slash transaction of every
  intent are signed and encoded, the candidates are one coinbase transaction, one slash
  transaction per intent, and the reaped transactions.
\<close>

theorem ProposeBlockTxs_batch:
  "fst (snd (ProposeBlockTxs env ledger)) =
     survivors env (candidates env ledger) (clearedState ledger) \<and>
   state (snd (snd (snd (ProposeBlockTxs env ledger)))) =
     finalState env (candidates env ledger) (clearedState ledger) \<and>
   fst (ProposeBlockTxs env ledger) =
     ViewHash env (checked (state (snd (snd (snd (ProposeBlockTxs env ledger)))))) \<and>
   GetSlashIntents (checked (clearedState ledger)) = [] \<and>
   (coinbaseCandidate env ledger = Some coinbaseTxBytes \<and>
    map (slashCandidate env ledger) (GetSlashIntents (checked (state ledger))) =
      map Some slashTxsBytes \<longrightarrow>
    candidates env ledger =
      coinbaseTxBytes # slashTxsBytes @
        Reap (MaxNumRegularTxsPerBlock env) (mempool ledger))"
  by (auto simp: ProposeBlockTxs_candidates clearedState_def GetSlashIntents_def
      ClearSlashIntents_def candidates_def List.map_filter_simps dest: map_filter_map_Some)

text \<open>The small instance: five candidates, three of them in the batch.\<close>

theorem ProposeBlockTxs_batch_witness:
  "coinbaseCandidate ex_env ex_ledger = Some [1] \<and>
   map (slashCandidate ex_env ex_ledger) (GetSlashIntents (checked (state ex_ledger))) =
     map Some [[2]] \<and>
   candidates ex_env ex_ledger = [[1], [2], [3], [255], [4]] \<and>
   survivors ex_env (candidates ex_env ex_ledger) (clearedState ex_ledger) = [[1], [2], [3]] \<and>
   fst (snd (ProposeBlockTxs ex_env ex_ledger)) = [[1], [2], [3]] \<and>
   fst (ProposeBlockTxs ex_env ex_ledger) = [1, 2, 3, 4] \<and>
   ViewHash ex_env (checked (state (snd (snd (snd (ProposeBlockTxs ex_env ex_ledger)))))) =
     [1, 2, 3, 4]"
proof -
  have c: "coinbaseCandidate ex_env ex_ledger = Some [1]"
    by (simp add: coinbaseCandidate_def signedBytes_def currentProposer_def
        currentValidators_def ex_defs ledger_defs)
  have s: "map (slashCandidate ex_env ex_ledger) (GetSlashIntents (checked (state ex_ledger))) =
     map Some [[2]]"
    by (simp add: slashCandidate_def signedBytes_def currentProposer_def ex_defs ledger_defs)
  have r: "Reap (MaxNumRegularTxsPerBlock ex_env) (mempool ex_ledger) = [[3], [255], [4]]"
    by (simp add: ex_defs ledger_defs)
  have b: "fst (snd (ProposeBlockTxs ex_env ex_ledger)) = [[1], [2], [3]]"
    "fst (ProposeBlockTxs ex_env ex_ledger) = [1, 2, 3, 4]"
    by (simp_all add: ex_defs ledger_defs)
  from ProposeBlockTxs_batch [of ex_env ex_ledger "[1]" "[[2]]"] c s r b show ?thesis
    by simp
qed

text \<open>
  C2 as it is written fails where the signer fails: with one slash intent in the checked
  view, no special transaction becomes a candidate, and the batch is the one regular
  transaction that passes.
\<close>

theorem ProposeBlockTxs_no_coinbase_counterexample:
  "GetSlashIntents (checked (state ex_ledger)) = [ex_intent] \<and>
   fst (addSpecialTransactions ex_env_nosign ex_ledger []) = [] \<and>
   fst (snd (ProposeBlockTxs ex_env_nosign ex_ledger)) = [[3]] \<and>
   TxFromBytes ex_env_nosign [3] = Inr ex_sendGood"
  by (simp add: ex_defs ledger_defs)

lemma map_filter_append:
  "List.map_filter f (xs @ ys) = List.map_filter f xs @ List.map_filter f ys"
  by (simp add: List.map_filter_def)

lemma map_filter_skip:
  "f x = None \<Longrightarrow> List.map_filter f (xs @ x # ys) = List.map_filter f (xs @ ys)"
  by (simp add: List.map_filter_def)

lemma afterCheck_intents:
  "check_keeps_intents env \<Longrightarrow>
     GetSlashIntents (checked (afterCheck env s raw)) = GetSlashIntents (checked s)"
  by (simp add: afterCheck_def check_keeps_intents_def split: sum.splits)

lemma finalState_intents:
  "check_keeps_intents env \<Longrightarrow>
     GetSlashIntents (checked (finalState env cands s)) = GetSlashIntents (checked s)"
  by (induction cands arbitrary: s) (simp_all add: finalState_Nil finalState_Cons afterCheck_intents)

text \<open>
  C10. \<^verbatim>\<open>ProposeBlockTxs\<close> returns OK whatever the ledger and the mempool are: its root,
  batch and ledger are those of the candidates checked from the ledger state with the slash
  intents of the checked view cleared, and the mempool is updated with the reaped list.
  When signing or encoding the coinbase transaction fails (\<open>signedBytes\<close> is \<open>None\<close>),
  \<^verbatim>\<open>addCoinbaseTx\<close> leaves the list of candidates as it is, the candidates are the slash
  and regular candidates alone, and the batch is made of them. When signing or encoding the
  slash transaction of an intent fails, the loop of \<^verbatim>\<open>addSlashTxs\<close> goes on with the next
  intent and the list as it is, and the candidates are those of the other intents, with
  the coinbase and regular candidates. In every case the slash intents of the checked view
  are cleared before the candidates are checked; in the ledger returned they are empty
  when \<^verbatim>\<open>CheckTx\<close> records none.
\<close>

theorem ProposeBlockTxs_returns_OK:
  "ProposeBlockTxs env ledger =
     (ViewHash env (checked (finalState env (candidates env ledger) (clearedState ledger))),
      survivors env (candidates env ledger) (clearedState ledger),
      OK,
      ledger\<lparr>state := finalState env (candidates env ledger) (clearedState ledger),
             mempool := Update (Reap (MaxNumRegularTxsPerBlock env) (mempool ledger))
                          (mempool ledger)\<rparr>) \<and>
   GetSlashIntents (checked (clearedState ledger)) = [] \<and>
   (coinbaseCandidate env ledger = None \<longrightarrow>
    candidates env ledger =
      List.map_filter (slashCandidate env ledger) (GetSlashIntents (checked (state ledger))) @
      Reap (MaxNumRegularTxsPerBlock env) (mempool ledger)) \<and>
   (slashCandidate env ledger failedIntent = None \<and>
    GetSlashIntents (checked (state ledger)) = earlier @ failedIntent # later \<longrightarrow>
    candidates env ledger =
      List.map_filter id [coinbaseCandidate env ledger] @
      List.map_filter (slashCandidate env ledger) (earlier @ later) @
      Reap (MaxNumRegularTxsPerBlock env) (mempool ledger)) \<and>
   (check_keeps_intents env \<longrightarrow>
    GetSlashIntents (checked (state (snd (snd (snd (ProposeBlockTxs env ledger)))))) = []) \<and>
   fst (snd (snd (ProposeBlockTxs env ledger))) = OK \<and>
   (signedBytes env ledger (v_Address proposer)
      (newCoinbaseTx env ledger view proposer validators) = None \<longrightarrow>
    addCoinbaseTx env ledger view proposer validators rawTxs = rawTxs) \<and>
   (signedBytes env ledger (v_Address proposer) (newSlashTx proposer slashIntent) = None \<longrightarrow>
    slashLoop env ledger proposer (slashIntent # rest) rawTxs =
      slashLoop env ledger proposer rest rawTxs) \<and>
   GetSlashIntents (snd (addSlashTxs env ledger view proposer validators rawTxs)) = [] \<and>
   GetSlashIntents (checked (state (snd (addSpecialTransactions env ledger rawTxs)))) = [] \<and>
   (coinbaseCandidate env ledger = None \<longrightarrow>
    fst (snd (ProposeBlockTxs env ledger)) =
      survivors env
        (List.map_filter (slashCandidate env ledger) (GetSlashIntents (checked (state ledger))) @
         Reap (MaxNumRegularTxsPerBlock env) (mempool ledger))
        (clearedState ledger))"
proof -
  have cleared: "GetSlashIntents (checked (clearedState ledger)) = []"
    by (simp add: clearedState_def GetSlashIntents_def ClearSlashIntents_def)
  have final: "GetSlashIntents (checked (state (snd (snd (snd (ProposeBlockTxs env ledger)))))) = []"
    if "check_keeps_intents env"
    using that cleared by (simp add: ProposeBlockTxs_candidates finalState_intents)
  have cv: "GetSlashIntents (ClearSlashIntents v) = []" for v :: "'a StoreView"
    by (simp add: GetSlashIntents_def ClearSlashIntents_def)
  show ?thesis
    using final cleared cv
    by (simp add: ProposeBlockTxs_candidates addCoinbaseTx_signedBytes slashLoop_signedBytes
        addSpecialTransactions_candidates addSlashTxs_def candidates_def
        List.map_filter_simps Let_def map_filter_skip)
qed

text \<open>
  The small instance with the signer that fails, and with the codec that fails on the
  slash transaction alone.
\<close>

theorem ProposeBlockTxs_returns_OK_witness:
  "coinbaseCandidate ex_env_nosign ex_ledger = None \<and>
   signedBytes ex_env_nosign ex_ledger (v_Address ex_valA)
     (newCoinbaseTx ex_env_nosign ex_ledger (checked (state ex_ledger)) ex_valA [ex_valA, ex_valB]) = None \<and>
   addCoinbaseTx ex_env_nosign ex_ledger (checked (state ex_ledger)) ex_valA [ex_valA, ex_valB] [] = [] \<and>
   candidates ex_env_nosign ex_ledger = [[3], [255], [4]] \<and>
   fst (snd (ProposeBlockTxs ex_env_nosign ex_ledger)) = [[3]] \<and>
   fst (snd (snd (ProposeBlockTxs ex_env_nosign ex_ledger))) = OK \<and>
   GetSlashIntents (checked (state ex_ledger)) = [] @ ex_intent # [] \<and>
   slashCandidate ex_env_noslash ex_ledger ex_intent = None \<and>
   signedBytes ex_env_noslash ex_ledger (v_Address ex_valA) (newSlashTx ex_valA ex_intent) = None \<and>
   slashLoop ex_env_noslash ex_ledger ex_valA [ex_intent] [] = [] \<and>
   check_keeps_intents ex_env_noslash \<and>
   candidates ex_env_noslash ex_ledger = [[1], [3], [255], [4]] \<and>
   fst (snd (ProposeBlockTxs ex_env_noslash ex_ledger)) = [[1], [3]] \<and>
   fst (snd (snd (ProposeBlockTxs ex_env_noslash ex_ledger))) = OK \<and>
   GetSlashIntents (checked (state (snd (snd (snd (ProposeBlockTxs ex_env_noslash ex_ledger)))))) = []"
proof -
  have cc: "coinbaseCandidate ex_env_nosign ex_ledger = None"
    by (simp add: coinbaseCandidate_def signedBytes_def currentProposer_def
        currentValidators_def ex_defs ledger_defs)
  have c: "signedBytes ex_env_nosign ex_ledger (v_Address ex_valA)
     (newCoinbaseTx ex_env_nosign ex_ledger (checked (state ex_ledger)) ex_valA [ex_valA, ex_valB]) = None"
    by (simp add: signedBytes_def ex_defs ledger_defs)
  have i: "GetSlashIntents (checked (state ex_ledger)) = [] @ ex_intent # []"
    by (simp add: ex_defs ledger_defs)
  have sc: "slashCandidate ex_env_noslash ex_ledger ex_intent = None"
    by (simp add: slashCandidate_def signedBytes_def currentProposer_def ex_defs ledger_defs)
  have s: "signedBytes ex_env_noslash ex_ledger (v_Address ex_valA) (newSlashTx ex_valA ex_intent) = None"
    by (simp add: signedBytes_def ex_defs ledger_defs)
  have k: "check_keeps_intents ex_env_noslash"
    by (simp add: check_keeps_intents_def GetSlashIntents_def ex_env_noslash_def ex_env_def
        ex_run_def ex_touch_def split: Tx.splits)
  have e: "slashLoop ex_env_noslash ex_ledger ex_valA [] [] = []"
    by simp
  have r: "Reap (MaxNumRegularTxsPerBlock ex_env_nosign) (mempool ex_ledger) = [[3], [255], [4]]"
    "Reap (MaxNumRegularTxsPerBlock ex_env_noslash) (mempool ex_ledger) = [[3], [255], [4]]"
    by (simp_all add: ex_defs ledger_defs)
  have sl: "List.map_filter (slashCandidate ex_env_nosign ex_ledger) [ex_intent] = []"
    by (simp add: slashCandidate_def signedBytes_def currentProposer_def List.map_filter_def
        ex_defs ledger_defs)
  have cb: "List.map_filter id [coinbaseCandidate ex_env_noslash ex_ledger] = [[1]]"
    by (simp add: coinbaseCandidate_def signedBytes_def currentProposer_def
        currentValidators_def ex_defs ledger_defs)
  have b: "fst (snd (ProposeBlockTxs ex_env_nosign ex_ledger)) = [[3]]"
    "fst (snd (ProposeBlockTxs ex_env_noslash ex_ledger)) = [[1], [3]]"
    by (simp_all add: ex_defs ledger_defs)
  note t1 = ProposeBlockTxs_returns_OK [where env = ex_env_nosign and ledger = ex_ledger
      and proposer = ex_valA and view = "checked (state ex_ledger)"
      and validators = "[ex_valA, ex_valB]" and rawTxs = "[]"]
  note t2 = ProposeBlockTxs_returns_OK [where env = ex_env_noslash and ledger = ex_ledger
      and proposer = ex_valA and slashIntent = ex_intent and rest = "[]" and rawTxs = "[]"
      and failedIntent = ex_intent and earlier = "[]" and later = "[]"]
  have a1: "addCoinbaseTx ex_env_nosign ex_ledger (checked (state ex_ledger)) ex_valA
      [ex_valA, ex_valB] [] = []"
    using t1 c by blast
  have a2: "candidates ex_env_nosign ex_ledger = [[3], [255], [4]]"
    using t1 cc i sl r by simp
  have a3: "fst (snd (snd (ProposeBlockTxs ex_env_nosign ex_ledger))) = OK"
    using t1 by blast
  have a4: "slashLoop ex_env_noslash ex_ledger ex_valA [ex_intent] [] = []"
    using t2 s e by simp
  have a5: "candidates ex_env_noslash ex_ledger = [[1], [3], [255], [4]]"
    using t2 sc i cb r by (simp add: List.map_filter_simps)
  have a6: "fst (snd (snd (ProposeBlockTxs ex_env_noslash ex_ledger))) = OK"
    using t2 by blast
  have a7: "GetSlashIntents (checked (state (snd (snd (snd (ProposeBlockTxs ex_env_noslash ex_ledger)))))) = []"
    using t2 k by blast
  from cc c a1 a2 b a3 i sc s a4 k a5 a6 a7 show ?thesis
    by blast
qed

subsection \<open>ProposeBlockTxs: the coinbase transaction\<close>

lemma rewardOutputs_map:
  "rewardOutputs n xs coinbaseTxOutputs =
     coinbaseTxOutputs @ map (\<lambda>(k, c). \<lparr>out_Address = copyAddress n k, out_Coins = c\<rparr>) xs"
  by (induction xs arbitrary: coinbaseTxOutputs) auto

lemma copyAddress_full: "length k = n \<Longrightarrow> copyAddress n k = k"
  by (simp add: copyAddress_def)

lemma set_survivors: "set (survivors env cands s) \<subseteq> set cands"
  by (induction cands arbitrary: s) (auto simp: survivors_Nil survivors_Cons)

lemma isCoinbaseTx_SetSignature: "isCoinbaseTx (SetSignature addr sig tx) = isCoinbaseTx tx"
  by (cases tx) auto

lemma slashCandidate_not_coinbase:
  assumes "codec_roundtrip env"
    and "b \<in> set (List.map_filter (slashCandidate env ledger) intents)"
  shows "\<not> decodesToCoinbase env b"
proof -
  from assms(2) obtain slashIntent where "slashCandidate env ledger slashIntent = Some b"
    by (auto simp: List.map_filter_def)
  then obtain signature where
    "TxToBytes env (SetSignature (v_Address (currentProposer ledger)) signature
        (newSlashTx (currentProposer ledger) slashIntent)) = Inr b"
    by (auto simp: slashCandidate_def signedBytes_Some_iff)
  with assms(1) have "TxFromBytes env b =
      Inr (SetSignature (v_Address (currentProposer ledger)) signature
        (newSlashTx (currentProposer ledger) slashIntent))"
    by (simp add: codec_roundtrip_def)
  then show ?thesis
    by (simp add: decodesToCoinbase_def isCoinbaseTx_SetSignature newSlashTx_def)
qed

lemma enumerates_full_keys:
  assumes "enumerates xs m" and "\<forall>k \<in> dom m. length k = n"
  shows "map (\<lambda>(k, c). (copyAddress n k, c)) xs = xs"
proof -
  have "\<And>k c. (k, c) \<in> set xs \<Longrightarrow> length k = n"
  proof -
    fix k c assume "(k, c) \<in> set xs"
    with assms(1) have "m k = Some c"
      by (auto simp: enumerates_def)
    with assms(2) show "length k = n" by auto
  qed
  then show ?thesis
    by (auto simp: copyAddress_full intro!: map_idI)
qed

text \<open>
  C6, as amended. Let \<^verbatim>\<open>ProposeBlockTxs\<close> be called with an empty mempool, let the codec
  round-trip, and let the coinbase transaction be signed, encoded and accepted by
  \<^verbatim>\<open>CheckTx\<close>. Then exactly one entry of the batch decodes to a coinbase transaction. Its
  proposer is the proposer of the current epoch, its outputs are the entries of the reward
  map of \<^verbatim>\<open>CalculateReward\<close> for the checked view and the validators of the epoch, in the
  order of \<^verbatim>\<open>range\<close>, the addresses copied from the keys (the outputs are the map itself
  when \<^verbatim>\<open>range\<close> enumerates it and the keys have the length of an address), its block
  height is the height of the ledger state, and it carries, under the address of the
  proposer, the signature the consensus engine's key makes of its sign bytes.
\<close>

theorem ProposeBlockTxs_coinbase:
  assumes "mempool ledger = []"
    and "codec_roundtrip env"
    and "proposer = currentProposer ledger"
    and "coinbaseTx = newCoinbaseTx env ledger (checked (state ledger)) proposer
           (currentValidators ledger)"
    and "signTransaction env ledger coinbaseTx = Inr signature"
    and "TxToBytes env (SetSignature (v_Address proposer) signature coinbaseTx) =
           Inr coinbaseTxBytes"
    and "\<not> IsError (fst (ExecCheckTx env (SetSignature (v_Address proposer) signature coinbaseTx)
           (clearedState ledger)))"
  shows "filter (decodesToCoinbase env) (fst (snd (ProposeBlockTxs env ledger))) =
           [coinbaseTxBytes] \<and>
         TxFromBytes env coinbaseTxBytes =
           Inr (SetSignature (v_Address proposer) signature coinbaseTx) \<and>
         SetSignature (v_Address proposer) signature coinbaseTx =
           CoinbaseTx (proposerTxIn proposer) (cb_Outputs coinbaseTx)
             (StateHeight env (state ledger)) [(v_Address proposer, signature)] \<and>
         map (\<lambda>out. (out_Address out, out_Coins out)) (cb_Outputs coinbaseTx) =
           map (\<lambda>(k, c). (copyAddress (AddressLength env) k, c))
             (MapRange env (rewardMap env ledger)) \<and>
         Sign env (PrivateKey (consensus ledger))
             (SignBytes env (GetChainID (state ledger)) coinbaseTx) = Inr signature \<and>
         (enumerates (MapRange env (rewardMap env ledger)) (rewardMap env ledger) \<and>
          (\<forall>k \<in> dom (rewardMap env ledger). length k = AddressLength env) \<longrightarrow>
            map_of (map (\<lambda>out. (out_Address out, out_Coins out)) (cb_Outputs coinbaseTx)) =
              rewardMap env ledger \<and>
            distinct (map out_Address (cb_Outputs coinbaseTx)))"
proof -
  let ?signed = "SetSignature (v_Address proposer) signature coinbaseTx"
  let ?slashes = "List.map_filter (slashCandidate env ledger)
                    (GetSlashIntents (checked (state ledger)))"
  have cand: "coinbaseCandidate env ledger = Some coinbaseTxBytes"
    using assms(3-6) by (simp add: coinbaseCandidate_def signedBytes_Some_iff)
  have cands: "candidates env ledger = coinbaseTxBytes # ?slashes"
    using cand assms(1) by (simp add: candidates_def Reap_def List.map_filter_simps)
  have dec: "TxFromBytes env coinbaseTxBytes = Inr ?signed"
    using assms(2,6) by (simp add: codec_roundtrip_def)
  have cb: "coinbaseTx = CoinbaseTx (proposerTxIn proposer)
      (map (\<lambda>(k, c). \<lparr>out_Address = copyAddress (AddressLength env) k, out_Coins = c\<rparr>)
         (MapRange env (rewardMap env ledger)))
      (StateHeight env (state ledger)) []"
    using assms(4) by (simp add: newCoinbaseTx_def rewardMap_def rewardOutputs_map Let_def)
  have pass: "passesCheck env coinbaseTxBytes (clearedState ledger)"
    using dec assms(7) by (simp add: passesCheck_def)
  have batch: "fst (snd (ProposeBlockTxs env ledger)) =
      coinbaseTxBytes # survivors env ?slashes (afterCheck env (clearedState ledger) coinbaseTxBytes)"
    using pass by (simp add: ProposeBlockTxs_candidates cands survivors_Cons)
  have "\<forall>b \<in> set (survivors env ?slashes (afterCheck env (clearedState ledger) coinbaseTxBytes)).
          \<not> decodesToCoinbase env b"
    using set_survivors slashCandidate_not_coinbase[OF assms(2)] by blast
  then have none: "filter (decodesToCoinbase env)
      (survivors env ?slashes (afterCheck env (clearedState ledger) coinbaseTxBytes)) = []"
    by (simp add: filter_empty_conv)
  have isCb: "decodesToCoinbase env coinbaseTxBytes"
    using dec cb by (simp add: decodesToCoinbase_def isCoinbaseTx_SetSignature)
  have one: "filter (decodesToCoinbase env) (fst (snd (ProposeBlockTxs env ledger))) =
      [coinbaseTxBytes]"
    using batch none isCb by simp
  have signed: "?signed = CoinbaseTx (proposerTxIn proposer) (cb_Outputs coinbaseTx)
      (StateHeight env (state ledger)) [(v_Address proposer, signature)]"
    by (subst (1 2) cb) (simp add: set_sig_def)
  have outs: "map (\<lambda>out. (out_Address out, out_Coins out)) (cb_Outputs coinbaseTx) =
      map (\<lambda>(k, c). (copyAddress (AddressLength env) k, c)) (MapRange env (rewardMap env ledger))"
    by (subst cb) (simp add: comp_def case_prod_unfold)
  have sig: "Sign env (PrivateKey (consensus ledger))
      (SignBytes env (GetChainID (state ledger)) coinbaseTx) = Inr signature"
    using assms(5) by (simp add: signTransaction_def Let_def split: sum.splits)
  have mp: "map_of (map (\<lambda>out. (out_Address out, out_Coins out)) (cb_Outputs coinbaseTx)) =
        rewardMap env ledger \<and> distinct (map out_Address (cb_Outputs coinbaseTx))"
    if e: "enumerates (MapRange env (rewardMap env ledger)) (rewardMap env ledger)"
      and k: "\<forall>k \<in> dom (rewardMap env ledger). length k = AddressLength env"
  proof -
    have same: "map (\<lambda>out. (out_Address out, out_Coins out)) (cb_Outputs coinbaseTx) =
        MapRange env (rewardMap env ledger)"
      using outs enumerates_full_keys[OF e k] by simp
    have "map out_Address (cb_Outputs coinbaseTx) =
        map fst (map (\<lambda>out. (out_Address out, out_Coins out)) (cb_Outputs coinbaseTx))"
      by (simp add: comp_def)
    with same e show ?thesis
      by (simp add: enumerates_def)
  qed
  from one dec signed outs sig mp show ?thesis
    by blast
qed


lemma ex_codec_roundtrip: "codec_roundtrip ex_env"
  by (auto simp: codec_roundtrip_def ex_env_def ex_TxToBytes_def ex_TxFromBytes_def
      split: if_splits)

lemma ex_rewardMap:
  "rewardMap ex_env ex_ledger_idle = map_of [([1, 1], 10), ([2, 2], 10)]"
  by (simp add: rewardMap_def currentValidators_def ex_defs)

lemma ex_enumerates:
  "enumerates (MapRange ex_env (rewardMap ex_env ex_ledger_idle)) (rewardMap ex_env ex_ledger_idle)"
  unfolding ex_rewardMap by (simp add: enumerates_def ex_env_def ex_range_def List.map_filter_def)

text \<open>The small instance with an empty mempool: the batch is the coinbase and the slash.\<close>

theorem ProposeBlockTxs_coinbase_witness:
  "mempool ex_ledger_idle = [] \<and>
   codec_roundtrip ex_env \<and>
   ex_valA = currentProposer ex_ledger_idle \<and>
   signTransaction ex_env ex_ledger_idle
     (newCoinbaseTx ex_env ex_ledger_idle (checked (state ex_ledger_idle)) ex_valA
        (currentValidators ex_ledger_idle)) = Inr [9, 0] \<and>
   SetSignature (v_Address ex_valA) [9, 0]
     (newCoinbaseTx ex_env ex_ledger_idle (checked (state ex_ledger_idle)) ex_valA
        (currentValidators ex_ledger_idle)) = ex_cbAB \<and>
   TxToBytes ex_env ex_cbAB = Inr [1] \<and>
   \<not> IsError (fst (ExecCheckTx ex_env ex_cbAB (clearedState ex_ledger_idle))) \<and>
   enumerates (MapRange ex_env (rewardMap ex_env ex_ledger_idle)) (rewardMap ex_env ex_ledger_idle) \<and>
   dom (rewardMap ex_env ex_ledger_idle) = {[1, 1], [2, 2]} \<and>
   AddressLength ex_env = 2 \<and>
   fst (snd (ProposeBlockTxs ex_env ex_ledger_idle)) = [[1], [2]] \<and>
   filter (decodesToCoinbase ex_env) (fst (snd (ProposeBlockTxs ex_env ex_ledger_idle))) = [[1]] \<and>
   TxFromBytes ex_env [1] = Inr ex_cbAB \<and>
   map_of (map (\<lambda>out. (out_Address out, out_Coins out)) (cb_Outputs ex_cbAB)) =
     rewardMap ex_env ex_ledger_idle"
proof -
  let ?cb = "newCoinbaseTx ex_env ex_ledger_idle (checked (state ex_ledger_idle)) ex_valA
        (currentValidators ex_ledger_idle)"
  have h1: "mempool ex_ledger_idle = []"
    by (simp add: ex_defs)
  have h3: "ex_valA = currentProposer ex_ledger_idle"
    by (simp add: currentProposer_def ex_ledger_idle_def ex_ledger_def ex_valMgr_def)
  have h5: "signTransaction ex_env ex_ledger_idle ?cb = Inr [9, 0]"
    by (simp add: signTransaction_def ex_env_def ex_ledger_idle_def ex_ledger_def ex_consensus_def)
  have sg: "SetSignature (v_Address ex_valA) [9, 0] ?cb = ex_cbAB"
    by (simp add: currentValidators_def ex_defs ledger_defs)
  have enc: "TxToBytes ex_env ex_cbAB = Inr [1]"
    by (simp add: ex_env_def ex_TxToBytes_def)
  have h6: "TxToBytes ex_env (SetSignature (v_Address ex_valA) [9, 0] ?cb) = Inr [1]"
    by (simp only: sg enc)
  have chk: "\<not> IsError (fst (ExecCheckTx ex_env ex_cbAB (clearedState ex_ledger_idle)))"
    by (simp add: ex_env_def ex_run_def ex_cbAB_def IsError_def OK_def)
  have h7: "\<not> IsError (fst (ExecCheckTx ex_env (SetSignature (v_Address ex_valA) [9, 0] ?cb)
      (clearedState ex_ledger_idle)))"
    by (simp only: sg chk not_False_eq_True)
  have k: "\<forall>k \<in> dom (rewardMap ex_env ex_ledger_idle). length k = AddressLength ex_env"
    unfolding ex_rewardMap by (auto simp: ex_env_def split: if_splits)
  have b: "fst (snd (ProposeBlockTxs ex_env ex_ledger_idle)) = [[1], [2]]"
    by (simp add: ex_defs ledger_defs)
  have o: "cb_Outputs ?cb = cb_Outputs ex_cbAB"
    by (simp add: sg [symmetric] newCoinbaseTx_def)
  note t = ProposeBlockTxs_coinbase [OF h1 ex_codec_roundtrip h3 refl h5 h6 h7]
  have c1: "filter (decodesToCoinbase ex_env) (fst (snd (ProposeBlockTxs ex_env ex_ledger_idle))) =
      [[1]]"
    using t by blast
  have c2: "TxFromBytes ex_env [1] = Inr ex_cbAB"
    using t unfolding sg by blast
  have c3: "map_of (map (\<lambda>out. (out_Address out, out_Coins out)) (cb_Outputs ex_cbAB)) =
      rewardMap ex_env ex_ledger_idle"
    using t ex_enumerates k unfolding o by blast
  have d: "dom (rewardMap ex_env ex_ledger_idle) = {[1, 1], [2, 2]}"
    unfolding ex_rewardMap by auto
  have n: "AddressLength ex_env = 2"
    by (simp add: ex_env_def)
  from h1 ex_codec_roundtrip h3 h5 sg enc chk ex_enumerates d n b c1 c2 c3
  show ?thesis
    by blast
qed

text \<open>
  C6 as it is written fails where the signer fails, and where \<^verbatim>\<open>CheckTx\<close> rejects the
  coinbase transaction: the mempool is empty, and the batch has no coinbase transaction.
\<close>

theorem ProposeBlockTxs_coinbase_counterexample:
  "mempool ex_ledger_idle = [] \<and>
   coinbaseCandidate ex_env_nosign ex_ledger_idle = None \<and>
   fst (snd (ProposeBlockTxs ex_env_nosign ex_ledger_idle)) = [] \<and>
   filter (decodesToCoinbase ex_env_nosign)
     (fst (snd (ProposeBlockTxs ex_env_nosign ex_ledger_idle))) = [] \<and>
   coinbaseCandidate ex_env_reject ex_ledger_idle = Some [1] \<and>
   fst (snd (ProposeBlockTxs ex_env_reject ex_ledger_idle)) = [] \<and>
   filter (decodesToCoinbase ex_env_reject)
     (fst (snd (ProposeBlockTxs ex_env_reject ex_ledger_idle))) = []"
  by (simp add: coinbaseCandidate_def signedBytes_def currentProposer_def currentValidators_def
      ex_defs ledger_defs)

subsection \<open>ProposeBlockTxs: the order of the reward map\<close>


lemma rewardMap_MapRange: "rewardMap (env\<lparr>MapRange := f\<rparr>) ledger = rewardMap env ledger"
  by (simp add: rewardMap_def)
















subsection \<open>ApplyBlockTxs: a failed batch\<close>








subsection \<open>ApplyBlockTxs: a batch that commits\<close>

lemma applyLoop_executeAll:
  "executeAll env B (state ledger) = Some s' \<Longrightarrow>
     applyLoop env h r B ledger = (None, ledger\<lparr>state := s'\<rparr>)"
proof (induction B arbitrary: ledger)
  case Nil
  then show ?case by simp
next
  case (Cons rawTx rest)
  from Cons.prems obtain tx where tx: "TxFromBytes env rawTx = Inr tx"
    by (cases "TxFromBytes env rawTx") auto
  obtain res s where ex: "ExecExecuteTx env tx (state ledger) = (res, s)"
    by (cases "ExecExecuteTx env tx (state ledger)")
  from Cons.prems tx ex have ok: "\<not> IsError res" and rest: "executeAll env rest s = Some s'"
    by (auto split: if_splits)
  from rest have "executeAll env rest (state (ledger\<lparr>state := s\<rparr>)) = Some s'"
    by simp
  from Cons.IH[OF this] tx ex ok show ?case
    by simp
qed

text \<open>
  C3. If every transaction of the batch \<open>B\<close> decodes and executes on the delivered view,
  the delivered root after the batch is the expected root \<open>r\<close>, and the commit keeps the
  root of the delivered view, then \<^verbatim>\<open>ApplyBlockTxs(B, r)\<close> returns OK, the ledger state is
  the committed state, the delivered root is \<open>r\<close>, and the mempool is updated with \<open>B\<close>:
  it holds the entries it held except those of \<open>B\<close>.
\<close>

theorem ApplyBlockTxs_commits:
  assumes "executeAll env B (state ledger) = Some s'"
    and "ViewHash env (delivered s') = r"
    and "ViewHash env (delivered (StateCommit env s')) = ViewHash env (delivered s')"
  shows "ApplyBlockTxs env B r ledger =
           (OK, ledger\<lparr>state := StateCommit env s', mempool := Update B (mempool ledger)\<rparr>) \<and>
         ViewHash env (delivered (state (snd (ApplyBlockTxs env B r ledger)))) = r \<and>
         set (mempool (snd (ApplyBlockTxs env B r ledger))) = set (mempool ledger) - set B"
proof -
  have "applyLoop env (Height (delivered (state ledger))) (ViewHash env (delivered (state ledger)))
          B ledger = (None, ledger\<lparr>state := s'\<rparr>)"
    using assms(1) by (rule applyLoop_executeAll)
  with assms(2) have eq: "ApplyBlockTxs env B r ledger =
      (OK, ledger\<lparr>state := StateCommit env s', mempool := Update B (mempool ledger)\<rparr>)"
    by (simp add: ApplyBlockTxs_def Let_def)
  with assms(2,3) show ?thesis
    by (simp add: set_Update)
qed

text \<open>The batch \<open>[[3], [1]]\<close> with its root \<open>[3, 1]\<close> on the small instance.\<close>

theorem ApplyBlockTxs_commits_witness:
  "executeAll ex_env [[3], [1]] (state ex_ledger) =
     Some ((state ex_ledger)\<lparr>delivered := ex_view 5 [3, 1]\<rparr>) \<and>
   ApplyBlockTxs ex_env [[3], [1]] [3, 1] ex_ledger =
     (OK, ex_ledger\<lparr>state := (state ex_ledger)\<lparr>delivered := ex_view 5 [3, 1], db := [[3, 1]]\<rparr>,
                    mempool := [[255], [4], [6]]\<rparr>) \<and>
   ViewHash ex_env (delivered (state (snd (ApplyBlockTxs ex_env [[3], [1]] [3, 1] ex_ledger)))) = [3, 1] \<and>
   set (mempool (snd (ApplyBlockTxs ex_env [[3], [1]] [3, 1] ex_ledger))) = {[255], [4], [6]}"
proof -
  have h1: "executeAll ex_env [[3], [1]] (state ex_ledger) =
     Some ((state ex_ledger)\<lparr>delivered := ex_view 5 [3, 1]\<rparr>)"
    by (simp add: ex_defs ledger_defs)
  have h2: "ViewHash ex_env (delivered ((state ex_ledger)\<lparr>delivered := ex_view 5 [3, 1]\<rparr>)) = [3, 1]"
    by (simp add: ex_defs)
  have h3: "ViewHash ex_env (delivered (StateCommit ex_env ((state ex_ledger)\<lparr>delivered := ex_view 5 [3, 1]\<rparr>))) =
     ViewHash ex_env (delivered ((state ex_ledger)\<lparr>delivered := ex_view 5 [3, 1]\<rparr>))"
    by (simp add: ex_defs)
  have v: "StateCommit ex_env ((state ex_ledger)\<lparr>delivered := ex_view 5 [3, 1]\<rparr>) =
      (state ex_ledger)\<lparr>delivered := ex_view 5 [3, 1], db := [[3, 1]]\<rparr>"
    "Update [[3], [1]] (mempool ex_ledger) = [[255], [4], [6]]"
    "set (mempool ex_ledger) - set [[3], [1]] = {[255], [4], [6]}"
    by (auto simp add: ex_defs ledger_defs)
  from ApplyBlockTxs_commits [OF h1 h2 h3] h1 h2 v show ?thesis
    by simp
qed

subsection \<open>Vote sets: last write wins by epoch\<close>

lemma AddVote_ids: "ID ` set (AddVote vote s) = insert (ID vote) (ID ` set s)"
  by (induction s) auto

lemma AddVote_subset: "set (AddVote vote s) \<subseteq> insert vote (set s)"
  by (induction s) auto

lemma AddVote_distinct: "distinct (map ID s) \<Longrightarrow> distinct (map ID (AddVote vote s))"
proof (induction s)
  case Nil
  then show ?case by simp
next
  case (Cons entry rest)
  then show ?case
    using AddVote_ids[of vote rest] by (auto simp del: AddVote_ids)
qed

lemma AddVote_replaces:
  "distinct (map ID s) \<Longrightarrow> entry \<in> set s \<Longrightarrow> ID entry = ID vote \<Longrightarrow> Epoch entry < Epoch vote \<Longrightarrow>
     AddVote vote s = map (\<lambda>e. if ID e = ID vote then vote else e) s"
proof (induction s)
  case Nil
  then show ?case by simp
next
  case (Cons first rest)
  show ?case
  proof (cases "ID first = ID vote")
    case True
    with Cons.prems have "first = entry"
      by (auto simp: image_iff)
    moreover from True Cons.prems have "map (\<lambda>e. if ID e = ID vote then vote else e) rest = rest"
      by (intro map_idI) (auto simp: image_iff)
    ultimately show ?thesis
      using True Cons.prems by simp
  next
    case False
    with Cons show ?thesis by auto
  qed
qed

lemma AddVote_drops:
  "distinct (map ID s) \<Longrightarrow> entry \<in> set s \<Longrightarrow> ID entry = ID vote \<Longrightarrow> \<not> Epoch entry < Epoch vote \<Longrightarrow>
     AddVote vote s = s"
proof (induction s)
  case Nil
  then show ?case by simp
next
  case (Cons first rest)
  show ?case
  proof (cases "ID first = ID vote")
    case True
    with Cons.prems have "first = entry"
      by (auto simp: image_iff)
    with True Cons.prems show ?thesis by simp
  next
    case False
    with Cons show ?thesis by auto
  qed
qed

lemma AddVote_new: "ID vote \<notin> ID ` set s \<Longrightarrow> AddVote vote s = s @ [vote]"
  by (induction s) auto

text \<open>The invariant of a vote set with respect to the votes seen so far.\<close>

lemma AddVote_invariant:
  assumes "distinct (map ID s)"
    and "set s \<subseteq> seen"
    and "ID ` set s = ID ` seen"
    and "\<forall>e \<in> set s. \<forall>w \<in> seen. ID w = ID e \<longrightarrow> Epoch w \<le> Epoch e"
  shows "distinct (map ID (AddVote vote s)) \<and>
         set (AddVote vote s) \<subseteq> insert vote seen \<and>
         ID ` set (AddVote vote s) = ID ` insert vote seen \<and>
         (\<forall>e \<in> set (AddVote vote s). \<forall>w \<in> insert vote seen. ID w = ID e \<longrightarrow> Epoch w \<le> Epoch e)"
proof (intro conjI)
  show "distinct (map ID (AddVote vote s))"
    using assms(1) by (rule AddVote_distinct)
  show "set (AddVote vote s) \<subseteq> insert vote seen"
    using AddVote_subset[of vote s] assms(2) by auto
  show "ID ` set (AddVote vote s) = ID ` insert vote seen"
    using assms(3) by (simp add: AddVote_ids)
  show "\<forall>e \<in> set (AddVote vote s). \<forall>w \<in> insert vote seen. ID w = ID e \<longrightarrow> Epoch w \<le> Epoch e"
  proof (cases "ID vote \<in> ID ` set s")
    case False
    then have "AddVote vote s = s @ [vote]"
      by (rule AddVote_new)
    moreover from False assms(3) have "\<forall>w \<in> seen. ID w \<noteq> ID vote"
      by (metis imageI)
    ultimately show ?thesis
      using assms(4) False by (auto simp: image_iff)
  next
    case True
    then obtain entry where entry: "entry \<in> set s" "ID entry = ID vote"
      by auto
    have uniq: "\<And>e. e \<in> set s \<Longrightarrow> ID e = ID vote \<Longrightarrow> e = entry"
      using assms(1) entry by (metis distinct_map inj_onD)
    show ?thesis
    proof (cases "Epoch entry < Epoch vote")
      case True
      with assms(1) entry have eq: "AddVote vote s = map (\<lambda>e. if ID e = ID vote then vote else e) s"
        by (rule AddVote_replaces[where entry = entry])
      show ?thesis
      proof (intro ballI impI)
        fix e w assume e: "e \<in> set (AddVote vote s)" and w: "w \<in> insert vote seen" and id: "ID w = ID e"
        from e eq consider "e = vote" | "e \<in> set s" "ID e \<noteq> ID vote"
          by auto
        then show "Epoch w \<le> Epoch e"
        proof cases
          case 1
          show ?thesis
          proof (cases "w = vote")
            case True
            with 1 show ?thesis by simp
          next
            case False
            with w have "w \<in> seen" by simp
            with assms(4) entry id 1 have "Epoch w \<le> Epoch entry" by auto
            with True 1 show ?thesis by simp
          qed
        next
          case 2
          with w id have "w \<in> seen" by auto
          with assms(4) 2 id show ?thesis by auto
        qed
      qed
    next
      case False
      with assms(1) entry have eq: "AddVote vote s = s"
        by (rule AddVote_drops[where entry = entry])
      show ?thesis
      proof (intro ballI impI)
        fix e w assume e: "e \<in> set (AddVote vote s)" and w: "w \<in> insert vote seen" and id: "ID w = ID e"
        from e eq have es: "e \<in> set s" by simp
        show "Epoch w \<le> Epoch e"
        proof (cases "w = vote")
          case True
          with id es uniq have "e = entry" by simp
          with False True show ?thesis by simp
        next
          case False
          with w have "w \<in> seen" by simp
          with assms(4) es id show ?thesis by auto
        qed
      qed
    qed
  qed
qed

lemma AddVotes_snoc: "AddVotes (votes @ [vote]) s = AddVote vote (AddVotes votes s)"
  by (simp add: AddVotes_def)

lemma AddVotes_invariant:
  "distinct (map ID (AddVotes votes NewVoteSet)) \<and>
   set (AddVotes votes NewVoteSet) \<subseteq> set votes \<and>
   ID ` set (AddVotes votes NewVoteSet) = ID ` set votes \<and>
   (\<forall>e \<in> set (AddVotes votes NewVoteSet). \<forall>w \<in> set votes. ID w = ID e \<longrightarrow> Epoch w \<le> Epoch e)"
proof (induction votes rule: rev_induct)
  case Nil
  then show ?case by (simp add: AddVotes_def NewVoteSet_def)
next
  case (snoc vote votes)
  from snoc have
    "distinct (map ID (AddVotes votes NewVoteSet))"
    "set (AddVotes votes NewVoteSet) \<subseteq> set votes"
    "ID ` set (AddVotes votes NewVoteSet) = ID ` set votes"
    "\<forall>e \<in> set (AddVotes votes NewVoteSet). \<forall>w \<in> set votes. ID w = ID e \<longrightarrow> Epoch w \<le> Epoch e"
    by blast+
  from AddVote_invariant[OF this, of vote] show ?case
    by (simp add: AddVotes_snoc)
qed

text \<open>
  C8. After any sequence of votes is added to a new vote set, the set has one entry for
  each voter of the sequence and no two entries of the same voter; each entry is a vote of
  the sequence, and no vote of the same voter in the sequence has a greater epoch. Adding a
  vote of a voter who has an entry with a strictly smaller epoch puts the vote in the place
  of the entry; adding a vote whose epoch is equal or smaller leaves the set as it is.
\<close>

theorem VoteSet_last_write_wins:
  "distinct (map ID (Votes (AddVotes votes NewVoteSet))) \<and>
   ID ` set (Votes (AddVotes votes NewVoteSet)) = ID ` set votes \<and>
   (\<forall>entry \<in> set (Votes (AddVotes votes NewVoteSet)).
      entry \<in> set votes \<and>
      (\<forall>vote \<in> set votes. ID vote = ID entry \<longrightarrow> Epoch vote \<le> Epoch entry)) \<and>
   (distinct (map ID s) \<and> entry \<in> set s \<and> ID entry = ID vote \<and> Epoch entry < Epoch vote \<longrightarrow>
      AddVote vote s = map (\<lambda>e. if ID e = ID vote then vote else e) s) \<and>
   (distinct (map ID s) \<and> entry \<in> set s \<and> ID entry = ID vote \<and> \<not> Epoch entry < Epoch vote \<longrightarrow>
      AddVote vote s = s)"
  using AddVotes_invariant[of votes] AddVote_replaces[of s entry vote] AddVote_drops[of s entry vote]
  unfolding Votes_def by blast

text \<open>
  The votes of \<^verbatim>\<open>TestConsensusStateVoteSet\<close>: Alice for A1 at epoch 13, Alice for A2 at
  epoch 20, Bob for A1 at epoch 20.
\<close>

theorem VoteSet_last_write_wins_witness:
  "Votes (AddVotes
     [\<lparr>Block = ''A1'', ID = ''Alice'', Epoch = 13\<rparr>,
      \<lparr>Block = ''A2'', ID = ''Alice'', Epoch = 20\<rparr>,
      \<lparr>Block = ''A1'', ID = ''Bob'', Epoch = 20\<rparr>] NewVoteSet) =
     [\<lparr>Block = ''A2'', ID = ''Alice'', Epoch = 20\<rparr>, \<lparr>Block = ''A1'', ID = ''Bob'', Epoch = 20\<rparr>] \<and>
   distinct (map ID (Votes (AddVotes
     [\<lparr>Block = ''A1'', ID = ''Alice'', Epoch = 13\<rparr>,
      \<lparr>Block = ''A2'', ID = ''Alice'', Epoch = 20\<rparr>,
      \<lparr>Block = ''A1'', ID = ''Bob'', Epoch = 20\<rparr>] NewVoteSet))) \<and>
   AddVote \<lparr>Block = ''A2'', ID = ''Alice'', Epoch = 20\<rparr> [\<lparr>Block = ''A1'', ID = ''Alice'', Epoch = 13\<rparr>] =
     [\<lparr>Block = ''A2'', ID = ''Alice'', Epoch = 20\<rparr>] \<and>
   AddVote \<lparr>Block = ''A1'', ID = ''Alice'', Epoch = 13\<rparr> [\<lparr>Block = ''A2'', ID = ''Alice'', Epoch = 20\<rparr>] =
     [\<lparr>Block = ''A2'', ID = ''Alice'', Epoch = 20\<rparr>]"
proof -
  have v: "Votes (AddVotes
     [\<lparr>Block = ''A1'', ID = ''Alice'', Epoch = 13\<rparr>,
      \<lparr>Block = ''A2'', ID = ''Alice'', Epoch = 20\<rparr>,
      \<lparr>Block = ''A1'', ID = ''Bob'', Epoch = 20\<rparr>] NewVoteSet) =
     [\<lparr>Block = ''A2'', ID = ''Alice'', Epoch = 20\<rparr>, \<lparr>Block = ''A1'', ID = ''Bob'', Epoch = 20\<rparr>]"
    by (simp add: Votes_def AddVotes_def NewVoteSet_def)
  have lt: "(13 :: uint64) < 20" "\<not> (20 :: uint64) < 13"
    by simp_all
  from VoteSet_last_write_wins [where votes = "[\<lparr>Block = ''A1'', ID = ''Alice'', Epoch = 13\<rparr>,
      \<lparr>Block = ''A2'', ID = ''Alice'', Epoch = 20\<rparr>,
      \<lparr>Block = ''A1'', ID = ''Bob'', Epoch = 20\<rparr>]" and s = "[\<lparr>Block = ''A1'', ID = ''Alice'', Epoch = 13\<rparr>]"
      and entry = "\<lparr>Block = ''A1'', ID = ''Alice'', Epoch = 13\<rparr>"
      and vote = "\<lparr>Block = ''A2'', ID = ''Alice'', Epoch = 20\<rparr>"]
    VoteSet_last_write_wins [where votes = "[]" and s = "[\<lparr>Block = ''A2'', ID = ''Alice'', Epoch = 20\<rparr>]"
      and entry = "\<lparr>Block = ''A2'', ID = ''Alice'', Epoch = 20\<rparr>"
      and vote = "\<lparr>Block = ''A1'', ID = ''Alice'', Epoch = 13\<rparr>"]
    v lt
  show ?thesis
    by simp
qed

end
